theory Spec2Isabelle
  imports Main "HOL-Library.Word"
begin

unbundle bit_operations_syntax

section \<open>Scatter-gather list of the XDmaChannel driver (xdma_channel_sg.c)\<close>

text \<open>
  The driver is written for a 32-bit target: pointers are cast to \<open>u32\<close> and all
  counters are \<open>u32\<close>, so every address and every counter is a \<open>32 word\<close>
  (addition and subtraction wrap, \<open>\<le>\<close> is the unsigned comparison). \<open>NULL\<close> is 0.
\<close>

type_synonym u32 = "32 word"

subsection \<open>Parameters\<close>

text \<open>
  What the driver takes from headers that are not at hand (xbuf_descriptor.h,
  xdma_channel.h, xdma_channel_i.h, xstatus.h) is a parameter of the model: the size of a
  descriptor, the word offsets of its fields, the values its initialiser writes, the
  locked and last-in-packet predicates, the ready marker, the register offsets and the
  bit masks. Every theorem below holds for all values of these parameters unless it says
  otherwise.

  \<open>XBufDescriptor_IsLocked\<close> and \<open>XBufDescriptor_IsLastControl\<close> are macros that
  inspect the descriptor at a pointer: they are functions of the store and the pointer.
\<close>

record xdc_params =
  sizeof_XBufDescriptor :: u32
  XBD_CONTROL_OFFSET :: u32
  XBD_SOURCE_OFFSET :: u32
  XBD_DESTINATION_OFFSET :: u32
  XBD_LENGTH_OFFSET :: u32
  XBD_STATUS_OFFSET :: u32
  XBD_DEVICE_STATUS_OFFSET :: u32
  XBD_NEXT_PTR_OFFSET :: u32
  XBD_ID_OFFSET :: u32
  XBD_FLAGS_OFFSET :: u32
  XBD_RQSTED_LENGTH_OFFSET :: u32
  XBD_INITIAL_VALUE :: "u32 \<Rightarrow> u32"
  XBufDescriptor_IsLocked :: "(u32 \<Rightarrow> u32) \<Rightarrow> u32 \<Rightarrow> bool"
  XBufDescriptor_IsLastControl :: "(u32 \<Rightarrow> u32) \<Rightarrow> u32 \<Rightarrow> bool"
  XCOMPONENT_IS_READY :: u32
  XDC_DMAS_REG_OFFSET :: u32
  XDC_DMAC_REG_OFFSET :: u32
  XDC_SWCR_REG_OFFSET :: u32
  XDC_BDA_REG_OFFSET :: u32
  XDC_DMASR_BUSY_MASK :: u32
  XDC_DMASR_SG_BUSY_MASK :: u32
  XDC_DMACR_SG_DISABLE_MASK :: u32

definition XDC_SWCR_SG_ENABLE_MASK :: u32 where
  "XDC_SWCR_SG_ENABLE_MASK = 0x80000000"

subsection \<open>The machine\<close>

text \<open>
  The channel instance. \<open>InstancePtr\<close> is modelled by the record it points to, so
  \<open>InstancePtr != NULL\<close> holds by construction, and the instance is not part of the
  memory that holds the descriptors. \<open>VirtPtr\<close> and \<open>PhyPtr\<close> are byte addresses.
\<close>

record XDmaChannel =
  RegBaseAddress :: u32
  IsReady :: u32
  PutPtr :: u32
  GetPtr :: u32
  CommitPtr :: u32
  LastPtr :: u32
  VirtPtr :: u32
  PhyPtr :: u32
  TotalDescriptorCount :: u32
  ActiveDescriptorCount :: u32
  ActivePacketCount :: u32
  Committed :: bool

text \<open>
  The machine state: the channel, the memory, and the register bus.

  The memory is an array of 32-bit words: \<open>mem a\<close> is the word at byte address \<open>a\<close>.
  The driver reads and writes descriptors one \<open>u32\<close> at a time, through word pointers
  \<open>(u32 *)p + offset\<close>, so a descriptor is nothing but the words at these addresses:
  the caller's descriptor and the ring's slots live in the same memory, and two
  descriptors whose addresses differ by less than the size of a descriptor share words.
  The memory is total and address 0 is a word like any other, since the driver
  dereferences its cursors without a null test. All accesses are to whole words, at
  addresses that are multiples of 4 whenever the pointers handed to the driver are (which
  it asserts) and the size of a descriptor is.

  The device is an oracle: the \<open>n\<close>-th register read of address \<open>a\<close> returns
  \<open>bus n a\<close>, whatever the engine did in between. Register writes are logged in order.
\<close>

record machine =
  chan :: XDmaChannel
  mem :: "u32 \<Rightarrow> u32"
  bus :: "nat \<Rightarrow> u32 \<Rightarrow> u32"
  reads :: nat
  writes :: "(u32 \<times> u32) list"

text \<open>
  The status codes of xstatus.h that this file returns. \<open>XASSERT_FAILURE\<close> is the
  outcome of a call that fails one of its \<open>XASSERT_NONVOID\<close> checks: the call ends at
  the assertion, before any write. A call that passes its assertions behaves the same
  whether assertions are compiled in or not.
\<close>

datatype status =
    XST_SUCCESS
  | XST_DMA_SG_NO_LIST
  | XST_DMA_SG_LIST_EMPTY
  | XST_DMA_SG_LIST_FULL
  | XST_DMA_SG_LIST_EXISTS
  | XST_DMA_SG_BD_LOCKED
  | XST_DMA_SG_NOTHING_TO_COMMIT
  | XST_DMA_SG_IS_STARTED
  | XST_DMA_SG_IS_STOPPED
  | XST_DMA_SG_BD_NOT_COMMITTED
  | XST_DMA_SG_NO_DATA
  | XASSERT_FAILURE

subsection \<open>Address translation\<close>

text \<open>
  The macros \<open>P_TO_V(p)\<close> and \<open>V_TO_P(v)\<close> applied to a value. Each macro names its
  argument twice, once in the null test and once in the translation; for an argument that
  reads a variable or a word of memory both evaluations give the same value.
\<close>

definition P_TO_V :: "XDmaChannel \<Rightarrow> u32 \<Rightarrow> u32" where
  "P_TO_V InstancePtr p =
     (if p \<noteq> 0 then VirtPtr InstancePtr + (p - PhyPtr InstancePtr) else 0)"

definition V_TO_P :: "XDmaChannel \<Rightarrow> u32 \<Rightarrow> u32" where
  "V_TO_P InstancePtr v =
     (if v \<noteq> 0 then PhyPtr InstancePtr + (v - VirtPtr InstancePtr) else 0)"

subsection \<open>Descriptor accessors\<close>

text \<open>
  \<open>bd_word p off\<close> is the address of the word \<open>*((u32 *)p + off)\<close> of the descriptor
  at \<open>p\<close>.
\<close>

definition bd_word :: "u32 \<Rightarrow> u32 \<Rightarrow> u32" where
  "bd_word p off = p + 4 * off"

text \<open>
  Modelled from the spec: the accessor macros of xbuf_descriptor.h, which read or write
  one word of the descriptor at the given address, "control (includes a stop bit ...),
  status, device status, next (physical address of next BD)". Each is the read or the
  write of \<open>*((u32 *)p + XBD_..._OFFSET)\<close>, the form in which \<open>CopyBufferDescriptor\<close>
  accesses the same words.
\<close>

definition XBufDescriptor_GetControl :: "xdc_params \<Rightarrow> (u32 \<Rightarrow> u32) \<Rightarrow> u32 \<Rightarrow> u32" where
  "XBufDescriptor_GetControl k m p = m (bd_word p (XBD_CONTROL_OFFSET k))"

definition XBufDescriptor_SetControl ::
  "xdc_params \<Rightarrow> (u32 \<Rightarrow> u32) \<Rightarrow> u32 \<Rightarrow> u32 \<Rightarrow> (u32 \<Rightarrow> u32)" where
  "XBufDescriptor_SetControl k m p v = m(bd_word p (XBD_CONTROL_OFFSET k) := v)"

definition XBufDescriptor_GetStatus :: "xdc_params \<Rightarrow> (u32 \<Rightarrow> u32) \<Rightarrow> u32 \<Rightarrow> u32" where
  "XBufDescriptor_GetStatus k m p = m (bd_word p (XBD_STATUS_OFFSET k))"

definition XBufDescriptor_SetStatus ::
  "xdc_params \<Rightarrow> (u32 \<Rightarrow> u32) \<Rightarrow> u32 \<Rightarrow> u32 \<Rightarrow> (u32 \<Rightarrow> u32)" where
  "XBufDescriptor_SetStatus k m p v = m(bd_word p (XBD_STATUS_OFFSET k) := v)"

definition XBufDescriptor_SetDeviceStatus ::
  "xdc_params \<Rightarrow> (u32 \<Rightarrow> u32) \<Rightarrow> u32 \<Rightarrow> u32 \<Rightarrow> (u32 \<Rightarrow> u32)" where
  "XBufDescriptor_SetDeviceStatus k m p v = m(bd_word p (XBD_DEVICE_STATUS_OFFSET k) := v)"

definition XBufDescriptor_GetNextPtr :: "xdc_params \<Rightarrow> (u32 \<Rightarrow> u32) \<Rightarrow> u32 \<Rightarrow> u32" where
  "XBufDescriptor_GetNextPtr k m p = m (bd_word p (XBD_NEXT_PTR_OFFSET k))"

definition XBufDescriptor_SetNextPtr ::
  "xdc_params \<Rightarrow> (u32 \<Rightarrow> u32) \<Rightarrow> u32 \<Rightarrow> u32 \<Rightarrow> (u32 \<Rightarrow> u32)" where
  "XBufDescriptor_SetNextPtr k m p v = m(bd_word p (XBD_NEXT_PTR_OFFSET k) := v)"

text \<open>
  The ten word offsets that this file names, and the nine of them that
  \<open>CopyBufferDescriptor\<close> copies, in the order of its assignments.
\<close>

definition field_offsets :: "xdc_params \<Rightarrow> u32 list" where
  "field_offsets k =
     [XBD_CONTROL_OFFSET k, XBD_SOURCE_OFFSET k, XBD_DESTINATION_OFFSET k,
      XBD_LENGTH_OFFSET k, XBD_STATUS_OFFSET k, XBD_DEVICE_STATUS_OFFSET k,
      XBD_NEXT_PTR_OFFSET k, XBD_ID_OFFSET k, XBD_FLAGS_OFFSET k,
      XBD_RQSTED_LENGTH_OFFSET k]"

definition copied_offsets :: "xdc_params \<Rightarrow> u32 list" where
  "copied_offsets k =
     [XBD_CONTROL_OFFSET k, XBD_SOURCE_OFFSET k, XBD_DESTINATION_OFFSET k,
      XBD_LENGTH_OFFSET k, XBD_STATUS_OFFSET k, XBD_DEVICE_STATUS_OFFSET k,
      XBD_ID_OFFSET k, XBD_FLAGS_OFFSET k, XBD_RQSTED_LENGTH_OFFSET k]"

text \<open>
  Modelled from the spec: \<open>XBufDescriptor_Initialize\<close>, which "initializes each BD (zero
  or driver-defined defaults)". It writes a default value, \<open>XBD_INITIAL_VALUE\<close> of the
  offset, to each of the ten words of the descriptor.
\<close>

definition XBufDescriptor_Initialize :: "xdc_params \<Rightarrow> (u32 \<Rightarrow> u32) \<Rightarrow> u32 \<Rightarrow> (u32 \<Rightarrow> u32)" where
  "XBufDescriptor_Initialize k m p =
     fold (\<lambda>off m'. m'(bd_word p off := XBD_INITIAL_VALUE k off)) (field_offsets k) m"

text \<open>
  \<open>CopyBufferDescriptor(InstancePtr, DestinationPtr)\<close>: nine assignments
  \<open>*((u32 *)DestinationPtr + off) = *((u32 *)InstancePtr + off)\<close>, one after the other,
  each reading the memory as the assignments before it have left it.
\<close>

definition CopyBufferDescriptor :: "xdc_params \<Rightarrow> (u32 \<Rightarrow> u32) \<Rightarrow> u32 \<Rightarrow> u32 \<Rightarrow> (u32 \<Rightarrow> u32)" where
  "CopyBufferDescriptor k m InstancePtr DestinationPtr =
     fold (\<lambda>off m'. m'(bd_word DestinationPtr off := m' (bd_word InstancePtr off)))
       (copied_offsets k) m"

subsection \<open>Register access\<close>

definition XIo_In32 :: "machine \<Rightarrow> u32 \<Rightarrow> u32 \<times> machine" where
  "XIo_In32 s a = (bus s (reads s) a, s\<lparr>reads := Suc (reads s)\<rparr>)"

definition XIo_Out32 :: "machine \<Rightarrow> u32 \<Rightarrow> u32 \<Rightarrow> machine" where
  "XIo_Out32 s a v = s\<lparr>writes := writes s @ [(a, v)]\<rparr>"

text \<open>
  \<open>P_TO_V(XIo_In32(a))\<close>. \<open>P_TO_V(p)\<close> expands to
  \<open>((p) ? (VirtPtr + ((u32)(p) - (u32)PhyPtr)) : 0)\<close>, so the register is read once for
  the null test and, when that read is not null, once more for the value that is
  translated; the second read is not tested.
\<close>

definition P_TO_V_XIo_In32 :: "XDmaChannel \<Rightarrow> machine \<Rightarrow> u32 \<Rightarrow> u32 \<times> machine" where
  "P_TO_V_XIo_In32 InstancePtr s a =
     (let (p, s1) = XIo_In32 s a
      in if p \<noteq> 0
         then (let (p', s2) = XIo_In32 s1 a
               in (VirtPtr InstancePtr + (p' - PhyPtr InstancePtr), s2))
         else (0, s1))"

subsection \<open>The list operations\<close>

text \<open>
  \<open>XDmaChannel_IsSgListEmpty\<close>; \<open>None\<close> when its own assertion fails (its callers
  have asserted the same before they call it).
\<close>

definition XDmaChannel_IsSgListEmpty :: "xdc_params \<Rightarrow> XDmaChannel \<Rightarrow> bool option" where
  "XDmaChannel_IsSgListEmpty k InstancePtr =
     (if IsReady InstancePtr \<noteq> XCOMPONENT_IS_READY k then None
      else Some (ActiveDescriptorCount InstancePtr = 0))"

definition XDmaChannel_PutDescriptor ::
  "xdc_params \<Rightarrow> machine \<Rightarrow> u32 \<Rightarrow> status \<times> machine" where
  "XDmaChannel_PutDescriptor k s BufferDescriptorPtr =
     (let InstancePtr = chan s in
      if BufferDescriptorPtr = 0 \<or> BufferDescriptorPtr AND 3 \<noteq> 0
         \<or> IsReady InstancePtr \<noteq> XCOMPONENT_IS_READY k
      then (XASSERT_FAILURE, s)
      else if TotalDescriptorCount InstancePtr = 0 then (XST_DMA_SG_NO_LIST, s)
      else if ActiveDescriptorCount InstancePtr = TotalDescriptorCount InstancePtr
      then (XST_DMA_SG_LIST_FULL, s)
      else if XBufDescriptor_IsLocked k (mem s) (PutPtr InstancePtr)
      then (XST_DMA_SG_BD_LOCKED, s)
      else
        let Control = XBufDescriptor_GetControl k (mem s) BufferDescriptorPtr;
            m1 = XBufDescriptor_SetControl k (mem s) BufferDescriptorPtr
                   (Control OR XDC_DMACR_SG_DISABLE_MASK k);
            m2 = XBufDescriptor_SetStatus k m1 BufferDescriptorPtr (XDC_DMASR_BUSY_MASK k);
            m3 = XBufDescriptor_SetDeviceStatus k m2 BufferDescriptorPtr 0;
            m4 = CopyBufferDescriptor k m3 BufferDescriptorPtr (PutPtr InstancePtr);
            packets =
              (if XBufDescriptor_IsLastControl k m4 (PutPtr InstancePtr)
               then ActivePacketCount InstancePtr + 1 else ActivePacketCount InstancePtr);
            m5 =
              (if CommitPtr InstancePtr \<noteq> LastPtr InstancePtr \<and> CommitPtr InstancePtr \<noteq> 0
               then XBufDescriptor_SetControl k m4 (LastPtr InstancePtr)
                      (XBufDescriptor_GetControl k m4 (LastPtr InstancePtr)
                         AND NOT (XDC_DMACR_SG_DISABLE_MASK k))
               else m4);
            commit =
              (if CommitPtr InstancePtr = 0 then LastPtr InstancePtr
               else CommitPtr InstancePtr)
        in (XST_SUCCESS,
            s\<lparr>chan := InstancePtr
                  \<lparr>ActivePacketCount := packets,
                   ActiveDescriptorCount := ActiveDescriptorCount InstancePtr + 1,
                   CommitPtr := commit,
                   LastPtr := PutPtr InstancePtr,
                   PutPtr := P_TO_V InstancePtr
                               (XBufDescriptor_GetNextPtr k m5 (PutPtr InstancePtr))\<rparr>,
              mem := m5\<rparr>))"

definition XDmaChannel_CommitPuts :: "xdc_params \<Rightarrow> machine \<Rightarrow> status \<times> machine" where
  "XDmaChannel_CommitPuts k s =
     (let InstancePtr = chan s in
      if IsReady InstancePtr \<noteq> XCOMPONENT_IS_READY k then (XASSERT_FAILURE, s)
      else case XDmaChannel_IsSgListEmpty k InstancePtr of
        None \<Rightarrow> (XASSERT_FAILURE, s)
      | Some list_empty \<Rightarrow>
          if CommitPtr InstancePtr = 0 \<or> list_empty then (XST_DMA_SG_NOTHING_TO_COMMIT, s)
          else
            let m1 =
                  (if CommitPtr InstancePtr \<noteq> LastPtr InstancePtr
                   then XBufDescriptor_SetControl k (mem s) (CommitPtr InstancePtr)
                          (XBufDescriptor_GetControl k (mem s) (CommitPtr InstancePtr)
                             AND NOT (XDC_DMACR_SG_DISABLE_MASK k))
                   else mem s)
            in (XST_SUCCESS,
                s\<lparr>chan := InstancePtr\<lparr>Committed := True, CommitPtr := 0\<rparr>, mem := m1\<rparr>))"

text \<open>
  \<open>XDmaChannel_GetDescriptor\<close>. \<open>BufDescriptorPtr\<close> is the address of the caller's
  pointer variable (only tested against \<open>NULL\<close>); the second component of the result is
  what the call stored through it, \<open>None\<close> when it stored nothing. The caller's pointer
  variable is not a word of a descriptor.
\<close>

definition XDmaChannel_GetDescriptor ::
  "xdc_params \<Rightarrow> machine \<Rightarrow> u32 \<Rightarrow> status \<times> u32 option \<times> machine" where
  "XDmaChannel_GetDescriptor k s BufDescriptorPtr =
     (let InstancePtr = chan s in
      if BufDescriptorPtr = 0 \<or> IsReady InstancePtr \<noteq> XCOMPONENT_IS_READY k
      then (XASSERT_FAILURE, None, s)
      else if TotalDescriptorCount InstancePtr = 0 then (XST_DMA_SG_NO_LIST, None, s)
      else case XDmaChannel_IsSgListEmpty k InstancePtr of
        None \<Rightarrow> (XASSERT_FAILURE, None, s)
      | Some list_empty \<Rightarrow>
          if list_empty then (XST_DMA_SG_LIST_EMPTY, None, s)
          else
            (XST_SUCCESS, Some (GetPtr InstancePtr),
             s\<lparr>chan := InstancePtr
                   \<lparr>GetPtr := P_TO_V InstancePtr
                                (XBufDescriptor_GetNextPtr k (mem s) (GetPtr InstancePtr)),
                    ActiveDescriptorCount := ActiveDescriptorCount InstancePtr - 1\<rparr>\<rparr>))"

subsection \<open>Creating the list\<close>

text \<open>
  The \<open>while\<close> loop of \<open>XDmaChannel_CreateSgList\<close>. The test
  \<open>UsedByteCount + sizeof(XBufDescriptor) <= ByteCount\<close> is unsigned 32-bit arithmetic:
  the sum can wrap, and then the loop need not end, so the loop is a partial function.
  It returns the state and the last value of \<open>BufferDescriptorPtr\<close>.
\<close>

partial_function (option) CreateSgList_loop ::
  "xdc_params \<Rightarrow> u32 \<Rightarrow> u32 \<Rightarrow> machine \<Rightarrow> u32 \<Rightarrow> u32 \<Rightarrow> u32 \<Rightarrow> (machine \<times> u32) option"
where
  "CreateSgList_loop k MemoryPtr ByteCount s BufferDescriptorPtr PreviousDescriptorPtr
       UsedByteCount =
     (if UsedByteCount + sizeof_XBufDescriptor k \<le> ByteCount then
        let Buf = MemoryPtr + UsedByteCount;
            m1 = XBufDescriptor_Initialize k (mem s) Buf;
            m2 = (if PreviousDescriptorPtr \<noteq> 0
                  then XBufDescriptor_SetNextPtr k m1 PreviousDescriptorPtr
                         (V_TO_P (chan s) Buf)
                  else m1)
        in CreateSgList_loop k MemoryPtr ByteCount
             (s\<lparr>chan := (chan s)
                   \<lparr>TotalDescriptorCount := TotalDescriptorCount (chan s) + 1\<rparr>,
                mem := m2\<rparr>)
             Buf Buf (UsedByteCount + sizeof_XBufDescriptor k)
      else Some (s, BufferDescriptorPtr))"

definition XDmaChannel_CreateSgList ::
  "xdc_params \<Rightarrow> machine \<Rightarrow> u32 \<Rightarrow> u32 \<Rightarrow> u32 \<Rightarrow> (status \<times> machine) option" where
  "XDmaChannel_CreateSgList k s MemoryPtr ByteCount PhysPtr =
     (let InstancePtr = chan s in
      if MemoryPtr = 0 \<or> MemoryPtr AND 3 \<noteq> 0 \<or> ByteCount = 0
         \<or> ByteCount < sizeof_XBufDescriptor k
         \<or> IsReady InstancePtr \<noteq> XCOMPONENT_IS_READY k
      then Some (XASSERT_FAILURE, s)
      else if TotalDescriptorCount InstancePtr \<noteq> 0 then Some (XST_DMA_SG_LIST_EXISTS, s)
      else
        case CreateSgList_loop k MemoryPtr ByteCount
               (s\<lparr>chan := InstancePtr\<lparr>VirtPtr := MemoryPtr, PhyPtr := PhysPtr\<rparr>\<rparr>)
               MemoryPtr 0 0 of
          None \<Rightarrow> None
        | Some (s2, BufferDescriptorPtr) \<Rightarrow>
            Some (XST_SUCCESS,
              s2\<lparr>chan := (chan s2)
                    \<lparr>PutPtr := BufferDescriptorPtr,
                     GetPtr := BufferDescriptorPtr,
                     CommitPtr := 0,
                     LastPtr := BufferDescriptorPtr,
                     ActiveDescriptorCount := 0,
                     ActivePacketCount := 0,
                     Committed := False\<rparr>,
                 mem := XBufDescriptor_SetNextPtr k (mem s2) BufferDescriptorPtr
                          (V_TO_P (chan s2) MemoryPtr)\<rparr>))"

subsection \<open>Starting and stopping the engine\<close>

text \<open>The enable sequence that ends \<open>XDmaChannel_SgStart\<close>.\<close>

definition SgStart_enable :: "xdc_params \<Rightarrow> machine \<Rightarrow> machine" where
  "SgStart_enable k s =
     (let InstancePtr = chan s;
          (Register, s1) = XIo_In32 s (RegBaseAddress InstancePtr + XDC_SWCR_REG_OFFSET k);
          s2 = XIo_Out32 s1 (RegBaseAddress InstancePtr + XDC_SWCR_REG_OFFSET k)
                 (Register OR XDC_SWCR_SG_ENABLE_MASK);
          (Register2, s3) = XIo_In32 s2 (RegBaseAddress InstancePtr + XDC_DMAC_REG_OFFSET k)
      in XIo_Out32 s3 (RegBaseAddress InstancePtr + XDC_DMAC_REG_OFFSET k)
           (Register2 AND NOT (XDC_DMACR_SG_DISABLE_MASK k)))"

definition XDmaChannel_SgStart :: "xdc_params \<Rightarrow> machine \<Rightarrow> status \<times> machine" where
  "XDmaChannel_SgStart k s =
     (let InstancePtr = chan s in
      if IsReady InstancePtr \<noteq> XCOMPONENT_IS_READY k then (XASSERT_FAILURE, s)
      else if TotalDescriptorCount InstancePtr = 0 then (XST_DMA_SG_NO_LIST, s)
      else case XDmaChannel_IsSgListEmpty k InstancePtr of
        None \<Rightarrow> (XASSERT_FAILURE, s)
      | Some list_empty \<Rightarrow>
          if list_empty then (XST_DMA_SG_LIST_EMPTY, s)
          else
          let (Register, s1) =
                XIo_In32 s (RegBaseAddress InstancePtr + XDC_DMAS_REG_OFFSET k)
          in if Register AND XDC_DMASR_SG_BUSY_MASK k \<noteq> 0 then (XST_DMA_SG_IS_STARTED, s1)
             else
               let (LastDescriptorPtr, s2) =
                     P_TO_V_XIo_In32 InstancePtr s1
                       (RegBaseAddress InstancePtr + XDC_BDA_REG_OFFSET k)
               in if LastDescriptorPtr = 0
                  then (XST_SUCCESS,
                        SgStart_enable k
                          (XIo_Out32 s2 (RegBaseAddress InstancePtr + XDC_BDA_REG_OFFSET k)
                             (V_TO_P InstancePtr (GetPtr InstancePtr))))
                  else
                    let NextDescriptorPtr =
                          P_TO_V InstancePtr
                            (XBufDescriptor_GetNextPtr k (mem s2) LastDescriptorPtr)
                    in if XBufDescriptor_GetStatus k (mem s2) NextDescriptorPtr
                            AND XDC_DMASR_BUSY_MASK k = 0
                       then (XST_DMA_SG_NO_DATA, s2)
                       else if NextDescriptorPtr = CommitPtr InstancePtr
                       then (XST_DMA_SG_BD_NOT_COMMITTED, s2)
                       else (XST_SUCCESS, SgStart_enable k s2))"



subsection \<open>The layout of a descriptor and the slots of a created list\<close>

text \<open>
  The layout the driver relies on: the ten offsets name ten different words, and each
  word lies inside \<open>sizeof(XBufDescriptor)\<close> bytes.
\<close>

definition layout_ok :: "xdc_params \<Rightarrow> bool" where
  "layout_ok k \<longleftrightarrow>
     distinct (field_offsets k)
     \<and> (\<forall>off \<in> set (field_offsets k). 4 * unat off + 4 \<le> unat (sizeof_XBufDescriptor k))"

text \<open>
  Two descriptors that share none of their words, and two descriptors that are the same
  or share none: what is excluded is a descriptor that lies across another one.
\<close>

definition disjoint_bd :: "xdc_params \<Rightarrow> u32 \<Rightarrow> u32 \<Rightarrow> bool" where
  "disjoint_bd k p q \<longleftrightarrow>
     (\<forall>off \<in> set (field_offsets k). \<forall>off' \<in> set (field_offsets k).
        bd_word p off \<noteq> bd_word q off')"

definition same_or_disjoint :: "xdc_params \<Rightarrow> u32 \<Rightarrow> u32 \<Rightarrow> bool" where
  "same_or_disjoint k p q \<longleftrightarrow> p = q \<or> disjoint_bd k p q"

text \<open>
  The address of the \<open>i\<close>-th descriptor that \<open>XDmaChannel_CreateSgList\<close> carves from the
  region at \<open>MemoryPtr\<close>, and the number of descriptors that fit into \<open>ByteCount\<close> bytes.
\<close>

definition slot :: "xdc_params \<Rightarrow> u32 \<Rightarrow> nat \<Rightarrow> u32" where
  "slot k MemoryPtr i = MemoryPtr + of_nat i * sizeof_XBufDescriptor k"

definition slot_count :: "xdc_params \<Rightarrow> u32 \<Rightarrow> nat" where
  "slot_count k ByteCount = unat ByteCount div unat (sizeof_XBufDescriptor k)"

text \<open>
  A region that starts at a non-null address and lies inside the 32-bit address space.
\<close>

definition region_fits :: "u32 \<Rightarrow> u32 \<Rightarrow> bool" where
  "region_fits base ByteCount \<longleftrightarrow> base \<noteq> 0 \<and> unat base + unat ByteCount \<le> 2 ^ 32"

text \<open>
  The memory after \<open>j\<close> rounds of the creation loop, started from the memory \<open>m0\<close>: the
  first \<open>j\<close> slots are initialised, each but the last linked to its successor, and every
  word that is not one of their ten is as in \<open>m0\<close>.
\<close>

definition created_upto ::
  "xdc_params \<Rightarrow> XDmaChannel \<Rightarrow> (u32 \<Rightarrow> u32) \<Rightarrow> u32 \<Rightarrow> nat \<Rightarrow> (u32 \<Rightarrow> u32) \<Rightarrow> bool" where
  "created_upto k c m0 M j m \<longleftrightarrow>
     (\<forall>i. Suc i < j \<longrightarrow>
        m (bd_word (slot k M i) (XBD_NEXT_PTR_OFFSET k)) = V_TO_P c (slot k M (Suc i)))
     \<and> (0 < j \<longrightarrow>
          m (bd_word (slot k M (j - 1)) (XBD_NEXT_PTR_OFFSET k))
            = XBD_INITIAL_VALUE k (XBD_NEXT_PTR_OFFSET k))
     \<and> (\<forall>i<j. \<forall>off \<in> set (copied_offsets k).
          m (bd_word (slot k M i) off) = XBD_INITIAL_VALUE k off)
     \<and> (\<forall>a. (\<forall>i<j. \<forall>off \<in> set (field_offsets k). a \<noteq> bd_word (slot k M i) off)
          \<longrightarrow> m a = m0 a)"

subsection \<open>The stop bit and sequences of calls\<close>

text \<open>
  The stop bit of a descriptor is the bit \<open>XDC_DMACR_SG_DISABLE_MASK\<close> of its control
  word: the engine halts after a descriptor that has it set.
\<close>

definition stop_set :: "xdc_params \<Rightarrow> (u32 \<Rightarrow> u32) \<Rightarrow> u32 \<Rightarrow> bool" where
  "stop_set k m p \<longleftrightarrow>
     XBufDescriptor_GetControl k m p AND XDC_DMACR_SG_DISABLE_MASK k
       = XDC_DMACR_SG_DISABLE_MASK k"

definition stop_clear :: "xdc_params \<Rightarrow> (u32 \<Rightarrow> u32) \<Rightarrow> u32 \<Rightarrow> bool" where
  "stop_clear k m p \<longleftrightarrow>
     XBufDescriptor_GetControl k m p AND XDC_DMACR_SG_DISABLE_MASK k = 0"

text \<open>
  A caller's sequence of list operations: each call with its pointer argument. \<open>run\<close> is
  the machine after the calls, whatever they returned; \<open>put_done\<close> says that one of the
  calls was a put that returned \<open>XST_SUCCESS\<close>.
\<close>

datatype call = Put u32 | Commit | Get u32

fun call_result :: "xdc_params \<Rightarrow> machine \<Rightarrow> call \<Rightarrow> status \<times> machine" where
  "call_result k s (Put BufferDescriptorPtr) = XDmaChannel_PutDescriptor k s BufferDescriptorPtr"
| "call_result k s Commit = XDmaChannel_CommitPuts k s"
| "call_result k s (Get BufDescriptorPtr) =
     (case XDmaChannel_GetDescriptor k s BufDescriptorPtr of (st, out, s') \<Rightarrow> (st, s'))"


fun put_done :: "xdc_params \<Rightarrow> machine \<Rightarrow> call list \<Rightarrow> bool" where
  "put_done k s [] = False"
| "put_done k s (c # cs) =
     ((case c of Put b \<Rightarrow> fst (call_result k s c) = XST_SUCCESS | _ \<Rightarrow> False)
      \<or> put_done k (snd (call_result k s c)) cs)"

text \<open>
  The descriptors that a sequence of calls puts all keep clear of the \<open>n\<close> slots at \<open>M\<close>:
  each is one of the slots or shares no word with any of them.
\<close>

definition puts_clear_of_ring :: "xdc_params \<Rightarrow> u32 \<Rightarrow> nat \<Rightarrow> call list \<Rightarrow> bool" where
  "puts_clear_of_ring k M n calls \<longleftrightarrow>
     (\<forall>c \<in> set calls. case c of
        Put b \<Rightarrow> (\<forall>i<n. same_or_disjoint k b (slot k M i))
      | _ \<Rightarrow> True)"

text \<open>
  The shape of a ring of \<open>n\<close> slots at \<open>M\<close>: different slots share no word, the
  translated next pointer of each slot is the following slot (the last one leading back
  to the first), \<open>PutPtr\<close> and \<open>LastPtr\<close> are slots, \<open>CommitPtr\<close> is a slot or \<open>NULL\<close>,
  and in a ring of more than one slot \<open>PutPtr\<close> meets \<open>LastPtr\<close> only while no run is
  staged.
\<close>

definition ring_ok :: "xdc_params \<Rightarrow> u32 \<Rightarrow> nat \<Rightarrow> machine \<Rightarrow> bool" where
  "ring_ok k M n s \<longleftrightarrow>
     0 < n
     \<and> (\<forall>i<n. \<forall>j<n. i \<noteq> j \<longrightarrow> disjoint_bd k (slot k M i) (slot k M j))
     \<and> (\<forall>i<n. P_TO_V (chan s) (XBufDescriptor_GetNextPtr k (mem s) (slot k M i))
                = slot k M (Suc i mod n))
     \<and> (\<exists>i<n. PutPtr (chan s) = slot k M i)
     \<and> (\<exists>i<n. LastPtr (chan s) = slot k M i)
     \<and> (CommitPtr (chan s) = 0 \<or> (\<exists>i<n. CommitPtr (chan s) = slot k M i))
     \<and> (n = 1 \<or> PutPtr (chan s) \<noteq> LastPtr (chan s) \<or> CommitPtr (chan s) = 0)"

text \<open>The cursors before the first successful put, and the stop bits after it.\<close>

definition fresh_inv :: "machine \<Rightarrow> bool" where
  "fresh_inv s \<longleftrightarrow> PutPtr (chan s) = LastPtr (chan s) \<and> CommitPtr (chan s) = 0"

definition stop_inv :: "xdc_params \<Rightarrow> machine \<Rightarrow> bool" where
  "stop_inv k s \<longleftrightarrow>
     stop_set k (mem s) (LastPtr (chan s))
     \<and> (CommitPtr (chan s) \<noteq> 0 \<longrightarrow> stop_set k (mem s) (CommitPtr (chan s)))"

subsection \<open>Concrete instances\<close>

text \<open>
  A choice of the parameters and a few small machine states, used to evaluate the model:
  descriptors of ten words (40 bytes) with the device status at word 0, the control word
  at 1, source, destination and length at 2 to 4, the status at 5, the next pointer at 6,
  id, flags and requested length at 7 to 9; an initialiser that zeroes the descriptor; a
  ring of two slots at \<open>0x1000\<close> and \<open>0x1028\<close> whose physical alias starts at \<open>0x2000\<close>.
\<close>

definition demo_params :: xdc_params where
  "demo_params =
     \<lparr>sizeof_XBufDescriptor = 40,
      XBD_CONTROL_OFFSET = 1,
      XBD_SOURCE_OFFSET = 2,
      XBD_DESTINATION_OFFSET = 3,
      XBD_LENGTH_OFFSET = 4,
      XBD_STATUS_OFFSET = 5,
      XBD_DEVICE_STATUS_OFFSET = 0,
      XBD_NEXT_PTR_OFFSET = 6,
      XBD_ID_OFFSET = 7,
      XBD_FLAGS_OFFSET = 8,
      XBD_RQSTED_LENGTH_OFFSET = 9,
      XBD_INITIAL_VALUE = (\<lambda>off. 0),
      XBufDescriptor_IsLocked = (\<lambda>m p. m (p + 32) AND 1 \<noteq> 0),
      XBufDescriptor_IsLastControl = (\<lambda>m p. m (p + 4) AND 0x02000000 \<noteq> 0),
      XCOMPONENT_IS_READY = 0x11111111,
      XDC_DMAS_REG_OFFSET = 20,
      XDC_DMAC_REG_OFFSET = 4,
      XDC_SWCR_REG_OFFSET = 28,
      XDC_BDA_REG_OFFSET = 24,
      XDC_DMASR_BUSY_MASK = 0x80000000,
      XDC_DMASR_SG_BUSY_MASK = 0x08000000,
      XDC_DMACR_SG_DISABLE_MASK = 0x08000000\<rparr>"

definition demo_channel :: XDmaChannel where
  "demo_channel =
     \<lparr>RegBaseAddress = 0x4000, IsReady = 0x11111111, PutPtr = 0, GetPtr = 0, CommitPtr = 0,
      LastPtr = 0, VirtPtr = 0, PhyPtr = 0, TotalDescriptorCount = 0,
      ActiveDescriptorCount = 0, ActivePacketCount = 0, Committed = False\<rparr>"

definition demo_machine :: machine where
  "demo_machine =
     \<lparr>chan = demo_channel, mem = (\<lambda>a. 0), bus = (\<lambda>n a. 0), reads = 0, writes = []\<rparr>"

text \<open>
  The ring of two slots after one descriptor was put into the slot at \<open>0x1028\<close>: that
  slot carries the stop bit (control word at \<open>0x102C\<close>) and is busy (status word at
  \<open>0x103C\<close>); the next pointers are the words at \<open>0x1018\<close> and \<open>0x1040\<close>.
\<close>

definition demo_ring :: machine where
  "demo_ring =
     \<lparr>chan =
        \<lparr>RegBaseAddress = 0x4000, IsReady = 0x11111111, PutPtr = 0x1000, GetPtr = 0x1028,
         CommitPtr = 0x1028, LastPtr = 0x1028, VirtPtr = 0x1000, PhyPtr = 0x2000,
         TotalDescriptorCount = 2, ActiveDescriptorCount = 1, ActivePacketCount = 0,
         Committed = False\<rparr>,
      mem = (\<lambda>a. 0)
        (0x1018 := 0x2028, 0x102C := 0x08000000, 0x103C := 0x80000000, 0x1040 := 0x2000),
      bus = (\<lambda>n a. 0), reads = 0, writes = []\<rparr>"

text \<open>The same ring with both slots active.\<close>

definition demo_full :: machine where
  "demo_full = demo_ring\<lparr>chan := (chan demo_ring)\<lparr>ActiveDescriptorCount := 2\<rparr>\<rparr>"


text \<open>The ring with a device whose descriptor address register reads \<open>0x2000\<close>.\<close>

definition demo_restart :: machine where
  "demo_restart = demo_ring\<lparr>bus := (\<lambda>n a. if a = 0x4018 then 0x2000 else 0)\<rparr>"

text \<open>
  The ring with a device whose descriptor address register reads \<open>0x1000\<close>, which is
  \<open>PhyPtr - VirtPtr\<close>.
\<close>

definition demo_offset :: machine where
  "demo_offset = demo_ring\<lparr>bus := (\<lambda>n a. if a = 0x4018 then 0x1000 else 0)\<rparr>"

text \<open>
  The machine after \<open>XDmaChannel_CreateSgList\<close> on \<open>demo_machine\<close> with a region of 160
  bytes at \<open>0x1000\<close> (physical \<open>0x2000\<close>): four slots, all cursors on the last one.
\<close>

definition demo_created :: machine where
  "demo_created =
     \<lparr>chan =
        \<lparr>RegBaseAddress = 0x4000, IsReady = 0x11111111, PutPtr = 0x1078, GetPtr = 0x1078,
         CommitPtr = 0, LastPtr = 0x1078, VirtPtr = 0x1000, PhyPtr = 0x2000,
         TotalDescriptorCount = 4, ActiveDescriptorCount = 0, ActivePacketCount = 0,
         Committed = False\<rparr>,
      mem = (\<lambda>a. 0)
        (0x1018 := 0x2028, 0x1040 := 0x2050, 0x1068 := 0x2078, 0x1090 := 0x2000),
      bus = (\<lambda>n a. 0), reads = 0, writes = []\<rparr>"

section \<open>Properties\<close>

lemmas accessor_defs =
  XBufDescriptor_GetControl_def XBufDescriptor_SetControl_def
  XBufDescriptor_GetStatus_def XBufDescriptor_SetStatus_def
  XBufDescriptor_SetDeviceStatus_def
  XBufDescriptor_GetNextPtr_def XBufDescriptor_SetNextPtr_def

lemmas demo_defs =
  demo_params_def demo_channel_def demo_machine_def demo_ring_def demo_full_def

subsection \<open>Put: errors leave everything as it was\<close>

text \<open>
  C9. Whenever \<open>XDmaChannel_PutDescriptor\<close> returns anything but \<open>XST_SUCCESS\<close> -- in
  particular \<open>XST_DMA_SG_NO_LIST\<close>, \<open>XST_DMA_SG_LIST_FULL\<close> or \<open>XST_DMA_SG_BD_LOCKED\<close> --
  the machine after the call is the machine before it: every channel field, every word of
  the memory (the ring's slots and the caller's descriptor alike). The three codes are
  returned only for an absent list, a full list and a locked slot at \<open>PutPtr\<close>.
\<close>

theorem put_descriptor_error_atomic:
  assumes "XDmaChannel_PutDescriptor k s BufferDescriptorPtr = (st, s')"
  shows "(st \<noteq> XST_SUCCESS \<longrightarrow> s' = s)
    \<and> (st = XST_DMA_SG_NO_LIST \<longrightarrow> TotalDescriptorCount (chan s) = 0)
    \<and> (st = XST_DMA_SG_LIST_FULL \<longrightarrow>
          ActiveDescriptorCount (chan s) = TotalDescriptorCount (chan s))
    \<and> (st = XST_DMA_SG_BD_LOCKED \<longrightarrow>
          XBufDescriptor_IsLocked k (mem s) (PutPtr (chan s)))"
  using assms
  by (auto simp: XDmaChannel_PutDescriptor_def Let_def split: if_splits)

theorem put_descriptor_error_atomic_witness:
  "fst (XDmaChannel_PutDescriptor demo_params demo_full 0x3000) = XST_DMA_SG_LIST_FULL
   \<and> snd (XDmaChannel_PutDescriptor demo_params demo_full 0x3000) = demo_full"
proof -
  have st: "fst (XDmaChannel_PutDescriptor demo_params demo_full 0x3000) = XST_DMA_SG_LIST_FULL"
    by (simp add: XDmaChannel_PutDescriptor_def demo_defs)
  have "XDmaChannel_PutDescriptor demo_params demo_full 0x3000 =
      (fst (XDmaChannel_PutDescriptor demo_params demo_full 0x3000),
       snd (XDmaChannel_PutDescriptor demo_params demo_full 0x3000))"
    by simp
  from put_descriptor_error_atomic [OF this] st show ?thesis
    by simp
qed

subsection \<open>Get: no ownership check\<close>



subsection \<open>Commit\<close>

text \<open>
  C2. For a ready channel, \<open>XDmaChannel_CommitPuts\<close> returns
  \<open>XST_DMA_SG_NOTHING_TO_COMMIT\<close> and the unchanged machine if and only if \<open>CommitPtr\<close>
  is \<open>NULL\<close> or \<open>ActiveDescriptorCount\<close> is 0. Otherwise it returns \<open>XST_SUCCESS\<close>, with
  \<open>Committed\<close> true and \<open>CommitPtr\<close> \<open>NULL\<close>; the memory is changed only when \<open>CommitPtr\<close>
  differs from \<open>LastPtr\<close>, and then only by clearing the stop bit
  (\<open>XDC_DMACR_SG_DISABLE_MASK\<close>) in the control word of the descriptor at \<open>CommitPtr\<close>.
\<close>

theorem commit_puts_cases:
  assumes "IsReady (chan s) = XCOMPONENT_IS_READY k"
  shows "XDmaChannel_CommitPuts k s =
      (if CommitPtr (chan s) = 0 \<or> ActiveDescriptorCount (chan s) = 0
       then (XST_DMA_SG_NOTHING_TO_COMMIT, s)
       else (XST_SUCCESS,
         s\<lparr>chan := (chan s)\<lparr>Committed := True, CommitPtr := 0\<rparr>,
           mem := (if CommitPtr (chan s) \<noteq> LastPtr (chan s)
                   then (mem s)(bd_word (CommitPtr (chan s)) (XBD_CONTROL_OFFSET k) :=
                      mem s (bd_word (CommitPtr (chan s)) (XBD_CONTROL_OFFSET k))
                        AND NOT (XDC_DMACR_SG_DISABLE_MASK k))
                   else mem s)\<rparr>))
    \<and> (fst (XDmaChannel_CommitPuts k s) = XST_DMA_SG_NOTHING_TO_COMMIT
          \<longleftrightarrow> CommitPtr (chan s) = 0 \<or> ActiveDescriptorCount (chan s) = 0)"
  using assms
  by (simp add: XDmaChannel_CommitPuts_def XDmaChannel_IsSgListEmpty_def Let_def accessor_defs)

theorem commit_puts_cases_witness:
  "XDmaChannel_CommitPuts demo_params demo_ring =
     (XST_SUCCESS, demo_ring\<lparr>chan := (chan demo_ring)\<lparr>Committed := True, CommitPtr := 0\<rparr>\<rparr>)
   \<and> XDmaChannel_CommitPuts demo_params
        (demo_ring\<lparr>chan := (chan demo_ring)\<lparr>CommitPtr := 0\<rparr>\<rparr>) =
     (XST_DMA_SG_NOTHING_TO_COMMIT, demo_ring\<lparr>chan := (chan demo_ring)\<lparr>CommitPtr := 0\<rparr>\<rparr>)"
  using commit_puts_cases [of demo_ring demo_params]
    commit_puts_cases [of "demo_ring\<lparr>chan := (chan demo_ring)\<lparr>CommitPtr := 0\<rparr>\<rparr>" demo_params]
  by (simp add: demo_defs)

subsection \<open>Stop\<close>








subsection \<open>Start\<close>

text \<open>
  With the same value \<open>0x1000\<close> at both reads of the descriptor address register -- not
  null, but equal to \<open>PhyPtr - VirtPtr\<close> -- the translation \<open>L\<close> is null. The descriptor
  at \<open>virt(next(L))\<close> has its busy bit clear, yet the call does not return
  \<open>XST_DMA_SG_NO_DATA\<close>: it writes the physical address of \<open>GetPtr\<close> to the register,
  runs the enable sequence and succeeds.
\<close>

theorem sg_start_offset_bda_counterexample:
  "bus demo_offset 1 (RegBaseAddress (chan demo_offset) + XDC_BDA_REG_OFFSET demo_params) = 0x1000
   \<and> bus demo_offset 2 (RegBaseAddress (chan demo_offset) + XDC_BDA_REG_OFFSET demo_params) = 0x1000
   \<and> XBufDescriptor_GetStatus demo_params (mem demo_offset)
        (P_TO_V (chan demo_offset)
           (XBufDescriptor_GetNextPtr demo_params (mem demo_offset)
              (P_TO_V (chan demo_offset) 0x1000)))
        AND XDC_DMASR_BUSY_MASK demo_params = 0
   \<and> XDmaChannel_SgStart demo_params demo_offset =
       (XST_SUCCESS,
        demo_offset\<lparr>reads := 5,
          writes := [(0x4018, 0x2028), (0x401C, 0x80000000), (0x4004, 0)]\<rparr>)"
  by (simp add: XDmaChannel_SgStart_def SgStart_enable_def XDmaChannel_IsSgListEmpty_def
      P_TO_V_XIo_In32_def XIo_In32_def XIo_Out32_def Let_def accessor_defs bd_word_def
      demo_offset_def demo_defs P_TO_V_def V_TO_P_def XDC_SWCR_SG_ENABLE_MASK_def)

text \<open>
  C5. For a ready channel \<open>XDmaChannel_SgStart\<close> returns \<open>XST_DMA_SG_NO_LIST\<close> when
  \<open>TotalDescriptorCount\<close> is 0, else \<open>XST_DMA_SG_LIST_EMPTY\<close> when
  \<open>ActiveDescriptorCount\<close> is 0, else \<open>XST_DMA_SG_IS_STARTED\<close> when the status register
  shows the scatter-gather busy bit. Otherwise it reads the descriptor address register:
  \<open>L\<close> is null when the register reads null, and otherwise \<open>L\<close> is
  \<open>VirtPtr + (b - PhyPtr)\<close> for the value \<open>b\<close> of a second read of the register, which
  is null exactly when \<open>b\<close> is \<open>PhyPtr - VirtPtr\<close>. When \<open>L\<close> is null the call writes the
  physical address of \<open>GetPtr\<close> to the register, runs the enable sequence and succeeds.
  When \<open>L\<close> is not null it returns \<open>XST_DMA_SG_NO_DATA\<close> if the busy bit of the
  descriptor at \<open>virt(next(L))\<close> is clear, else \<open>XST_DMA_SG_BD_NOT_COMMITTED\<close> if that
  descriptor is \<open>CommitPtr\<close>, else it runs the enable sequence and succeeds. The enable
  sequence writes the software control register (enable bit set) first and the DMA
  control register (stop bit cleared) second.
\<close>

theorem sg_start_cases:
  assumes "IsReady (chan s) = XCOMPONENT_IS_READY k"
  shows
    "XDmaChannel_SgStart k s =
      (let base = RegBaseAddress (chan s);
           n = reads s;
           bda1 = bus s (n + 1) (base + XDC_BDA_REG_OFFSET k);
           bda2 = bus s (n + 2) (base + XDC_BDA_REG_OFFSET k);
           LastDescriptorPtr =
             (if bda1 \<noteq> 0 then VirtPtr (chan s) + (bda2 - PhyPtr (chan s)) else 0);
           r = (if bda1 \<noteq> 0 then n + 3 else n + 2);
           NextDescriptorPtr =
             P_TO_V (chan s) (XBufDescriptor_GetNextPtr k (mem s) LastDescriptorPtr);
           enable =
             [(base + XDC_SWCR_REG_OFFSET k,
               bus s r (base + XDC_SWCR_REG_OFFSET k) OR XDC_SWCR_SG_ENABLE_MASK),
              (base + XDC_DMAC_REG_OFFSET k,
               bus s (r + 1) (base + XDC_DMAC_REG_OFFSET k)
                 AND NOT (XDC_DMACR_SG_DISABLE_MASK k))]
       in if TotalDescriptorCount (chan s) = 0 then (XST_DMA_SG_NO_LIST, s)
          else if ActiveDescriptorCount (chan s) = 0 then (XST_DMA_SG_LIST_EMPTY, s)
          else if bus s n (base + XDC_DMAS_REG_OFFSET k) AND XDC_DMASR_SG_BUSY_MASK k \<noteq> 0
          then (XST_DMA_SG_IS_STARTED, s\<lparr>reads := n + 1\<rparr>)
          else if LastDescriptorPtr = 0
          then (XST_SUCCESS,
                s\<lparr>reads := r + 2,
                  writes := writes s @
                    (base + XDC_BDA_REG_OFFSET k, V_TO_P (chan s) (GetPtr (chan s))) # enable\<rparr>)
          else if XBufDescriptor_GetStatus k (mem s) NextDescriptorPtr
                    AND XDC_DMASR_BUSY_MASK k = 0
          then (XST_DMA_SG_NO_DATA, s\<lparr>reads := r\<rparr>)
          else if NextDescriptorPtr = CommitPtr (chan s)
          then (XST_DMA_SG_BD_NOT_COMMITTED, s\<lparr>reads := r\<rparr>)
          else (XST_SUCCESS, s\<lparr>reads := r + 2, writes := writes s @ enable\<rparr>))
     \<and> (\<forall>bda1 bda2.
           ((if bda1 \<noteq> 0 then VirtPtr (chan s) + (bda2 - PhyPtr (chan s)) else 0) = 0)
             = (bda1 = 0 \<or> bda2 = PhyPtr (chan s) - VirtPtr (chan s)))
     \<and> (\<forall>bda. (if bda \<noteq> 0 then VirtPtr (chan s) + (bda - PhyPtr (chan s)) else 0)
             = P_TO_V (chan s) bda)"
proof -
  have zero: "(VirtPtr (chan s) + (b - PhyPtr (chan s)) = 0)
      = (b = PhyPtr (chan s) - VirtPtr (chan s))" for b
    by (simp add: algebra_simps eq_neg_iff_add_eq_0 add_eq_0_iff) 
  have translate: "\<forall>bda1 bda2.
           ((if bda1 \<noteq> 0 then VirtPtr (chan s) + (bda2 - PhyPtr (chan s)) else 0) = 0)
             = (bda1 = 0 \<or> bda2 = PhyPtr (chan s) - VirtPtr (chan s))"
    using zero by simp
  have ptov: "\<forall>bda. (if bda \<noteq> 0 then VirtPtr (chan s) + (bda - PhyPtr (chan s)) else 0)
             = P_TO_V (chan s) bda"
    by (simp add: P_TO_V_def)
  have main: "XDmaChannel_SgStart k s =
      (let base = RegBaseAddress (chan s);
           n = reads s;
           bda1 = bus s (n + 1) (base + XDC_BDA_REG_OFFSET k);
           bda2 = bus s (n + 2) (base + XDC_BDA_REG_OFFSET k);
           LastDescriptorPtr =
             (if bda1 \<noteq> 0 then VirtPtr (chan s) + (bda2 - PhyPtr (chan s)) else 0);
           r = (if bda1 \<noteq> 0 then n + 3 else n + 2);
           NextDescriptorPtr =
             P_TO_V (chan s) (XBufDescriptor_GetNextPtr k (mem s) LastDescriptorPtr);
           enable =
             [(base + XDC_SWCR_REG_OFFSET k,
               bus s r (base + XDC_SWCR_REG_OFFSET k) OR XDC_SWCR_SG_ENABLE_MASK),
              (base + XDC_DMAC_REG_OFFSET k,
               bus s (r + 1) (base + XDC_DMAC_REG_OFFSET k)
                 AND NOT (XDC_DMACR_SG_DISABLE_MASK k))]
       in if TotalDescriptorCount (chan s) = 0 then (XST_DMA_SG_NO_LIST, s)
          else if ActiveDescriptorCount (chan s) = 0 then (XST_DMA_SG_LIST_EMPTY, s)
          else if bus s n (base + XDC_DMAS_REG_OFFSET k) AND XDC_DMASR_SG_BUSY_MASK k \<noteq> 0
          then (XST_DMA_SG_IS_STARTED, s\<lparr>reads := n + 1\<rparr>)
          else if LastDescriptorPtr = 0
          then (XST_SUCCESS,
                s\<lparr>reads := r + 2,
                  writes := writes s @
                    (base + XDC_BDA_REG_OFFSET k, V_TO_P (chan s) (GetPtr (chan s))) # enable\<rparr>)
          else if XBufDescriptor_GetStatus k (mem s) NextDescriptorPtr
                    AND XDC_DMASR_BUSY_MASK k = 0
          then (XST_DMA_SG_NO_DATA, s\<lparr>reads := r\<rparr>)
          else if NextDescriptorPtr = CommitPtr (chan s)
          then (XST_DMA_SG_BD_NOT_COMMITTED, s\<lparr>reads := r\<rparr>)
          else (XST_SUCCESS, s\<lparr>reads := r + 2, writes := writes s @ enable\<rparr>))"
    using assms
    by (simp add: XDmaChannel_SgStart_def SgStart_enable_def XDmaChannel_IsSgListEmpty_def
        P_TO_V_XIo_In32_def XIo_In32_def XIo_Out32_def Let_def accessor_defs eval_nat_numeral)
  from main translate ptov show ?thesis by (intro conjI)
qed

theorem sg_start_cases_witness:
  "XDmaChannel_SgStart demo_params demo_ring =
     (XST_SUCCESS,
      demo_ring\<lparr>reads := 4,
        writes := [(0x4018, 0x2028), (0x401C, 0x80000000), (0x4004, 0)]\<rparr>)
   \<and> XDmaChannel_SgStart demo_params demo_restart =
     (XST_DMA_SG_BD_NOT_COMMITTED, demo_restart\<lparr>reads := 3\<rparr>)"
  using sg_start_cases [of demo_ring demo_params, THEN conjunct1]
    sg_start_cases [of demo_restart demo_params, THEN conjunct1]
  by (simp add: demo_restart_def demo_defs P_TO_V_def V_TO_P_def XDC_SWCR_SG_ENABLE_MASK_def
      Let_def accessor_defs bd_word_def)

subsection \<open>Words of a descriptor\<close>

lemma fold_upd_other:
  assumes "\<forall>off \<in> set os. a \<noteq> f off"
  shows "fold (\<lambda>off m'. m'(f off := g m' off)) os m a = m a"
  using assms by (induction os arbitrary: m) simp_all

lemma fold_upd_const_at:
  assumes "off \<in> set os" and "inj_on f (set os)"
  shows "fold (\<lambda>off m'. m'(f off := g off)) os m (f off) = g off"
  using assms
proof (induction os arbitrary: m)
  case Nil
  then show ?case by simp
next
  case (Cons x xs)
  show ?case
  proof (cases "off \<in> set xs")
    case True
    moreover have "inj_on f (set xs)"
      using Cons.prems(2) by (simp add: inj_on_def)
    ultimately show ?thesis
      using Cons.IH by simp
  next
    case False
    with Cons.prems(1) have x: "off = x" by simp
    have "\<forall>off' \<in> set xs. f x \<noteq> f off'"
      using Cons.prems(2) False x by (auto simp: inj_on_def)
    then have "fold (\<lambda>off m'. m'(f off := g off)) xs (m(f x := g x)) (f x) = (m(f x := g x)) (f x)"
      by (rule fold_upd_other [where g = "\<lambda>m'. g"])
    then have "fold (\<lambda>off m'. m'(f off := g off)) xs (m(f x := g x)) (f x) = g x"
      by (simp only: fun_upd_same)
    then show ?thesis
      unfolding x by (simp only: fold_Cons o_apply)
  qed
qed

lemma fold_copy_at:
  assumes "off \<in> set os" and "inj_on d (set os)"
    and "\<forall>x \<in> set os. \<forall>y \<in> set os. d x \<noteq> r y"
  shows "fold (\<lambda>off m'. m'(d off := m' (r off))) os m (d off) = m (r off)"
  using assms
proof (induction os arbitrary: m)
  case Nil
  then show ?case by simp
next
  case (Cons x xs)
  let ?m1 = "m(d x := m (r x))"
  have inj: "inj_on d (set xs)"
    using Cons.prems(2) by (simp add: inj_on_def)
  have apart: "\<forall>x \<in> set xs. \<forall>y \<in> set xs. d x \<noteq> r y"
    using Cons.prems(3) by simp
  show ?case
  proof (cases "off \<in> set xs")
    case True
    have "fold (\<lambda>off m'. m'(d off := m' (r off))) xs ?m1 (d off) = ?m1 (r off)"
      using True inj apart by (rule Cons.IH)
    moreover have "r off \<noteq> d x"
      using Cons.prems(3) True by auto
    then have "?m1 (r off) = m (r off)"
      by simp
    ultimately have "fold (\<lambda>off m'. m'(d off := m' (r off))) xs ?m1 (d off) = m (r off)"
      by (rule trans)
    then show ?thesis
      by (simp only: fold_Cons o_apply)
  next
    case False
    with Cons.prems(1) have x: "off = x" by simp
    have "\<forall>off' \<in> set xs. d x \<noteq> d off'"
      using Cons.prems(2) False x by (auto simp: inj_on_def)
    then have "fold (\<lambda>off m'. m'(d off := m' (r off))) xs ?m1 (d x) = ?m1 (d x)"
      by (rule fold_upd_other [where g = "\<lambda>m' off. m' (r off)"])
    then have "fold (\<lambda>off m'. m'(d off := m' (r off))) xs ?m1 (d x) = m (r x)"
      by (simp only: fun_upd_same)
    then show ?thesis
      unfolding x by (simp only: fold_Cons o_apply)
  qed
qed

lemma fold_copy_same:
  "fold (\<lambda>off m'. m'(d off := m' (d off))) os m = m"
  by (induction os arbitrary: m) simp_all

lemma field_mem:
  "XBD_CONTROL_OFFSET k \<in> set (field_offsets k)"
  "XBD_SOURCE_OFFSET k \<in> set (field_offsets k)"
  "XBD_DESTINATION_OFFSET k \<in> set (field_offsets k)"
  "XBD_LENGTH_OFFSET k \<in> set (field_offsets k)"
  "XBD_STATUS_OFFSET k \<in> set (field_offsets k)"
  "XBD_DEVICE_STATUS_OFFSET k \<in> set (field_offsets k)"
  "XBD_NEXT_PTR_OFFSET k \<in> set (field_offsets k)"
  "XBD_ID_OFFSET k \<in> set (field_offsets k)"
  "XBD_FLAGS_OFFSET k \<in> set (field_offsets k)"
  "XBD_RQSTED_LENGTH_OFFSET k \<in> set (field_offsets k)"
  by (simp_all add: field_offsets_def)

lemma copied_subset: "off \<in> set (copied_offsets k) \<Longrightarrow> off \<in> set (field_offsets k)"
  by (auto simp: copied_offsets_def field_offsets_def)

lemma field_cases:
  "off \<in> set (field_offsets k) \<Longrightarrow>
     off = XBD_NEXT_PTR_OFFSET k \<or> off \<in> set (copied_offsets k)"
  by (auto simp: copied_offsets_def field_offsets_def)

lemma layout_distinct:
  assumes "layout_ok k"
  shows "XBD_NEXT_PTR_OFFSET k \<notin> set (copied_offsets k)"
    and "distinct (copied_offsets k)"
    and "XBD_CONTROL_OFFSET k \<noteq> XBD_STATUS_OFFSET k"
    and "XBD_CONTROL_OFFSET k \<noteq> XBD_DEVICE_STATUS_OFFSET k"
    and "XBD_CONTROL_OFFSET k \<noteq> XBD_NEXT_PTR_OFFSET k"
    and "XBD_STATUS_OFFSET k \<noteq> XBD_NEXT_PTR_OFFSET k"
    and "XBD_DEVICE_STATUS_OFFSET k \<noteq> XBD_NEXT_PTR_OFFSET k"
  using assms by (auto simp: layout_ok_def copied_offsets_def field_offsets_def)

lemma unat_field:
  assumes "layout_ok k" and "off \<in> set (field_offsets k)"
  shows "unat (4 * off) = 4 * unat off"
    and "4 * unat off + 4 \<le> unat (sizeof_XBufDescriptor k)"
proof -
  show b: "4 * unat off + 4 \<le> unat (sizeof_XBufDescriptor k)"
    using assms by (simp add: layout_ok_def)
  have "unat (sizeof_XBufDescriptor k) < 2 ^ 32"
    using unsigned_less [of "sizeof_XBufDescriptor k"] by simp
  with b have "unat (4 :: u32) * unat off < 2 ^ LENGTH(32)"
    by simp
  then have "unat (4 * off) = unat (4 :: u32) * unat off"
    by (simp only: unat_mult_lem [THEN iffD1])
  then show "unat (4 * off) = 4 * unat off"
    by simp
qed

lemma bd_word_eq_iff:
  assumes "layout_ok k" and "off \<in> set (field_offsets k)" and "off' \<in> set (field_offsets k)"
  shows "(bd_word p off = bd_word p off') = (off = off')"
proof
  assume "bd_word p off = bd_word p off'"
  then have "4 * off = 4 * off'"
    by (simp add: bd_word_def)
  then have "unat (4 * off) = unat (4 * off')"
    by simp
  then have "unat off = unat off'"
    using unat_field(1) [OF assms(1,2)] unat_field(1) [OF assms(1,3)] by simp
  then show "off = off'"
    by (rule word_unat_eq_iff [THEN iffD2])
next
  assume "off = off'"
  then show "bd_word p off = bd_word p off'" by simp
qed

lemma bd_word_inj_fields:
  assumes "layout_ok k"
  shows "inj_on (bd_word p) (set (field_offsets k))"
  using bd_word_eq_iff [OF assms] by (auto simp: inj_on_def)

lemma bd_word_inj_copied:
  assumes "layout_ok k"
  shows "inj_on (bd_word p) (set (copied_offsets k))"
  using bd_word_inj_fields [OF assms, of p] copied_subset [of _ k]
  by (auto simp: inj_on_def)


lemma same_or_disjoint_neq:
  assumes "layout_ok k" and "same_or_disjoint k p q"
    and "off \<in> set (field_offsets k)" and "off' \<in> set (field_offsets k)" and "off \<noteq> off'"
  shows "bd_word p off \<noteq> bd_word q off'"
proof (cases "p = q")
  case True
  then show ?thesis
    using bd_word_eq_iff [OF assms(1,3,4), of q] assms(5) by simp
next
  case False
  with assms(2) have "disjoint_bd k p q"
    by (simp add: same_or_disjoint_def)
  then show ?thesis
    using assms(3,4) by (simp add: disjoint_bd_def)
qed

lemma disjoint_bd_neq:
  assumes "disjoint_bd k p q"
    and "off \<in> set (field_offsets k)" and "off' \<in> set (field_offsets k)"
  shows "bd_word p off \<noteq> bd_word q off'"
  using assms by (simp add: disjoint_bd_def)

lemma disjoint_bd_sym: "disjoint_bd k p q \<Longrightarrow> disjoint_bd k q p"
  by (auto simp: disjoint_bd_def dest: sym)

lemma same_or_disjoint_sym: "same_or_disjoint k p q \<Longrightarrow> same_or_disjoint k q p"
  by (auto simp: same_or_disjoint_def dest: disjoint_bd_sym)

subsection \<open>The copy\<close>

lemma Copy_other:
  assumes "\<forall>off \<in> set (copied_offsets k). a \<noteq> bd_word dst off"
  shows "CopyBufferDescriptor k m src dst a = m a"
  unfolding CopyBufferDescriptor_def
  using assms by (rule fold_upd_other [where g = "\<lambda>m' off. m' (bd_word src off)"])

lemma Copy_same: "CopyBufferDescriptor k m p p = m"
  unfolding CopyBufferDescriptor_def by (rule fold_copy_same)

lemma Copy_at:
  assumes "layout_ok k" and "same_or_disjoint k src dst" and "off \<in> set (copied_offsets k)"
  shows "CopyBufferDescriptor k m src dst (bd_word dst off) = m (bd_word src off)"
proof (cases "src = dst")
  case True
  then show ?thesis by (simp add: Copy_same)
next
  case False
  with assms(2) have d: "disjoint_bd k src dst"
    by (simp add: same_or_disjoint_def)
  have "\<forall>x \<in> set (copied_offsets k). \<forall>y \<in> set (copied_offsets k).
      bd_word dst x \<noteq> bd_word src y"
    using disjoint_bd_neq [OF disjoint_bd_sym [OF d]] copied_subset by blast
  with assms(3) bd_word_inj_copied [OF assms(1)] show ?thesis
    unfolding CopyBufferDescriptor_def by (rule fold_copy_at)
qed


lemma Copy_keeps_next:
  assumes "layout_ok k"
  shows "CopyBufferDescriptor k m src dst (bd_word dst (XBD_NEXT_PTR_OFFSET k))
    = m (bd_word dst (XBD_NEXT_PTR_OFFSET k))"
proof (rule Copy_other, rule ballI)
  fix off assume off: "off \<in> set (copied_offsets k)"
  with layout_distinct(1) [OF assms] have "XBD_NEXT_PTR_OFFSET k \<noteq> off"
    by auto
  then show "bd_word dst (XBD_NEXT_PTR_OFFSET k) \<noteq> bd_word dst off"
    using bd_word_eq_iff [OF assms field_mem(7) copied_subset [OF off], of dst] by simp
qed

subsection \<open>Create\<close>

lemma unat_mult_small:
  fixes sz :: u32
  assumes "i * unat sz < 2 ^ 32"
  shows "unat (of_nat i * sz) = i * unat sz"
proof (cases "unat sz = 0")
  case True
  then have "sz = 0" by (simp add: unat_eq_zero)
  then show ?thesis by simp
next
  case False
  then have "i \<le> i * unat sz" by simp
  with assms have i: "i < 2 ^ 32" by linarith
  then have "unat (of_nat i :: u32) = i" by (simp add: unat_of_nat)
  then show ?thesis using assms by (simp add: unat_word_ariths)
qed

lemma unat_offset:
  fixes base sz :: u32
  assumes "unat base + i * unat sz < 2 ^ 32"
  shows "unat (base + of_nat i * sz) = unat base + i * unat sz"
proof -
  have "i * unat sz < 2 ^ 32" using assms by linarith
  then have "unat (of_nat i * sz) = i * unat sz" by (rule unat_mult_small)
  then show ?thesis using assms by (simp add: unat_word_ariths)
qed

lemma slot_bound:
  assumes "i < slot_count k B" and "0 < unat (sizeof_XBufDescriptor k)"
  shows "(i + 1) * unat (sizeof_XBufDescriptor k) \<le> unat B"
proof -
  have "Suc i \<le> unat B div unat (sizeof_XBufDescriptor k)"
    using assms by (simp add: slot_count_def)
  then have "Suc i * unat (sizeof_XBufDescriptor k) \<le> unat B"
    using assms(2) by (simp add: less_eq_div_iff_mult_less_eq)
  then show ?thesis by simp
qed

lemma unat_slot:
  assumes "region_fits M B" and "i < slot_count k B" and "0 < unat (sizeof_XBufDescriptor k)"
  shows "unat (slot k M i) = unat M + i * unat (sizeof_XBufDescriptor k)"
proof -
  have "(i + 1) * unat (sizeof_XBufDescriptor k) \<le> unat B"
    using assms by (intro slot_bound)
  then have "unat M + i * unat (sizeof_XBufDescriptor k) < 2 ^ 32"
    using assms(1,3) by (simp add: region_fits_def)
  then show ?thesis unfolding slot_def by (rule unat_offset)
qed

lemma slot_inj:
  assumes "region_fits M B" and "i < slot_count k B" and "j < slot_count k B"
    and "0 < unat (sizeof_XBufDescriptor k)" and "slot k M i = slot k M j"
  shows "i = j"
proof -
  have "unat (slot k M i) = unat M + i * unat (sizeof_XBufDescriptor k)"
    using assms(1,2,4) by (rule unat_slot)
  moreover have "unat (slot k M j) = unat M + j * unat (sizeof_XBufDescriptor k)"
    using assms(1,3,4) by (rule unat_slot)
  ultimately have "i * unat (sizeof_XBufDescriptor k) = j * unat (sizeof_XBufDescriptor k)"
    using assms(5) by auto
  then show ?thesis using assms(4) by simp
qed

lemma slot_nonnull:
  assumes "region_fits M B" and "i < slot_count k B" and "0 < unat (sizeof_XBufDescriptor k)"
  shows "slot k M i \<noteq> 0"
proof
  assume "slot k M i = 0"
  then have "unat (slot k M i) = 0" by simp
  then have "unat M = 0" using unat_slot[OF assms] by simp
  then show False using assms(1) by (simp add: region_fits_def unat_eq_zero)
qed

lemma loop_test:
  fixes B :: u32
  assumes "0 < unat (sizeof_XBufDescriptor k)"
    and "unat B + unat (sizeof_XBufDescriptor k) < 2 ^ 32"
    and "j \<le> slot_count k B"
  shows "(of_nat j * sizeof_XBufDescriptor k + sizeof_XBufDescriptor k \<le> B) \<longleftrightarrow> j < slot_count k B"
proof -
  let ?sz = "sizeof_XBufDescriptor k"
  have n: "slot_count k B * unat ?sz \<le> unat B"
    by (simp add: slot_count_def)
  have "j * unat ?sz \<le> slot_count k B * unat ?sz"
    using assms(3) by (rule mult_le_mono1)
  with n assms(2) have "unat ?sz + j * unat ?sz < 2 ^ 32" by linarith
  then have small: "Suc j * unat ?sz < 2 ^ 32" by simp
  have "of_nat j * ?sz + ?sz = of_nat (Suc j) * ?sz"
    by (simp add: algebra_simps)
  then have "unat (of_nat j * ?sz + ?sz) = Suc j * unat ?sz"
    using unat_mult_small[OF small] by simp
  moreover have "Suc j * unat ?sz \<le> unat B \<longleftrightarrow> Suc j \<le> slot_count k B"
    using assms(1) by (simp add: slot_count_def less_eq_div_iff_mult_less_eq)
  ultimately show ?thesis by (simp add: word_le_nat_alt Suc_le_eq)
qed

lemma V_TO_P_Total [simp]:
  "V_TO_P (c\<lparr>TotalDescriptorCount := x\<rparr>) v = V_TO_P c v"
  by (simp add: V_TO_P_def)

lemma layout_size:
  assumes "layout_ok k"
  shows "0 < unat (sizeof_XBufDescriptor k)"
  using unat_field(2) [OF assms field_mem(1)] by simp

lemma unat_slot_word:
  assumes "region_fits M B" and "layout_ok k" and "i < slot_count k B"
    and "off \<in> set (field_offsets k)"
  shows "unat (bd_word (slot k M i) off)
    = unat M + i * unat (sizeof_XBufDescriptor k) + 4 * unat off"
proof -
  note sz = layout_size [OF assms(2)]
  have s: "unat (slot k M i) = unat M + i * unat (sizeof_XBufDescriptor k)"
    using assms(1,3) sz by (rule unat_slot)
  have f: "unat (4 * off) = 4 * unat off"
    "4 * unat off + 4 \<le> unat (sizeof_XBufDescriptor k)"
    using unat_field [OF assms(2,4)] by simp_all
  have "(i + 1) * unat (sizeof_XBufDescriptor k) \<le> unat B"
    using assms(3) sz by (rule slot_bound)
  then have "unat M + i * unat (sizeof_XBufDescriptor k) + unat (sizeof_XBufDescriptor k)
      \<le> 2 ^ 32"
    using assms(1) by (simp add: region_fits_def)
  with f have "unat (slot k M i) + unat (4 * off) < 2 ^ LENGTH(32)"
    unfolding s by simp
  then have "unat (slot k M i + 4 * off) = unat (slot k M i) + unat (4 * off)"
    by (simp only: unat_add_lem [THEN iffD1])
  then show ?thesis
    by (simp add: bd_word_def s f(1))
qed

lemma slots_disjoint_less:
  assumes "region_fits M B" and "layout_ok k" and "i < j" and "j < slot_count k B"
    and "off \<in> set (field_offsets k)" and "off' \<in> set (field_offsets k)"
  shows "bd_word (slot k M i) off \<noteq> bd_word (slot k M j) off'"
proof
  let ?sz = "unat (sizeof_XBufDescriptor k)"
  assume eq: "bd_word (slot k M i) off = bd_word (slot k M j) off'"
  have i: "i < slot_count k B" using assms(3,4) by simp
  have "unat M + i * ?sz + 4 * unat off = unat M + j * ?sz + 4 * unat off'"
    using unat_slot_word [OF assms(1,2) i assms(5)]
      unat_slot_word [OF assms(1,2,4) assms(6)] eq by simp
  moreover have "4 * unat off + 4 \<le> ?sz"
    using unat_field(2) [OF assms(2,5)] .
  moreover have "Suc i * ?sz \<le> j * ?sz"
    using assms(3) by (intro mult_le_mono1) simp
  ultimately show False by simp
qed

lemma slots_disjoint:
  assumes "region_fits M B" and "layout_ok k"
    and "i < slot_count k B" and "j < slot_count k B" and "i \<noteq> j"
  shows "disjoint_bd k (slot k M i) (slot k M j)"
  unfolding disjoint_bd_def
proof (intro ballI)
  fix off off'
  assume o: "off \<in> set (field_offsets k)" "off' \<in> set (field_offsets k)"
  show "bd_word (slot k M i) off \<noteq> bd_word (slot k M j) off'"
  proof (cases "i < j")
    case True
    then show ?thesis
      using slots_disjoint_less [OF assms(1,2) _ assms(4) o] by simp
  next
    case False
    with assms(5) have "j < i" by simp
    then show ?thesis
      using slots_disjoint_less [OF assms(1,2) _ assms(3) o(2) o(1)] by fastforce
  qed
qed

lemma slot_word_neq:
  assumes "region_fits M B" and "layout_ok k"
    and "i < slot_count k B" and "j < slot_count k B"
    and "off \<in> set (field_offsets k)" and "off' \<in> set (field_offsets k)"
    and "i \<noteq> j \<or> off \<noteq> off'"
  shows "bd_word (slot k M i) off \<noteq> bd_word (slot k M j) off'"
proof (cases "i = j")
  case True
  with assms(7) have "off \<noteq> off'" by simp
  then show ?thesis
    using bd_word_eq_iff [OF assms(2,5,6)] True by simp
next
  case False
  from slots_disjoint [OF assms(1,2,3,4) False] assms(5,6) show ?thesis
    by (rule disjoint_bd_neq)
qed

lemma Initialize_other:
  assumes "\<forall>off \<in> set (field_offsets k). a \<noteq> bd_word p off"
  shows "XBufDescriptor_Initialize k m p a = m a"
  unfolding XBufDescriptor_Initialize_def
  using assms by (rule fold_upd_other [where g = "\<lambda>m'. XBD_INITIAL_VALUE k"])

lemma Initialize_at:
  assumes "layout_ok k" and "off \<in> set (field_offsets k)"
  shows "XBufDescriptor_Initialize k m p (bd_word p off) = XBD_INITIAL_VALUE k off"
  unfolding XBufDescriptor_Initialize_def
  using assms(2) bd_word_inj_fields [OF assms(1)] by (rule fold_upd_const_at)

lemma created_upto_step:
  assumes fits: "region_fits M B" and lay: "layout_ok k"
    and j: "j < slot_count k B"
    and inv: "created_upto k c m0 M j m"
  shows "created_upto k c m0 M (Suc j)
     (let m1 = XBufDescriptor_Initialize k m (slot k M j)
      in if (if j = 0 then 0 else slot k M (j - 1)) \<noteq> 0
         then XBufDescriptor_SetNextPtr k m1 (if j = 0 then 0 else slot k M (j - 1))
                (V_TO_P c (slot k M j))
         else m1)"
proof -
  let ?n = "XBD_NEXT_PTR_OFFSET k"
  let ?m1 = "XBufDescriptor_Initialize k m (slot k M j)"
  let ?prev = "bd_word (slot k M (j - 1)) ?n"
  let ?m2 = "if j = 0 then ?m1 else ?m1(?prev := V_TO_P c (slot k M j))"
  note sz = layout_size [OF lay]
  have nn: "slot k M (j - 1) \<noteq> 0"
    using slot_nonnull [OF fits _ sz, of "j - 1"] j by simp
  have m2: "(let m1 = XBufDescriptor_Initialize k m (slot k M j)
      in if (if j = 0 then 0 else slot k M (j - 1)) \<noteq> 0
         then XBufDescriptor_SetNextPtr k m1 (if j = 0 then 0 else slot k M (j - 1))
                (V_TO_P c (slot k M j))
         else m1) = ?m2"
    using nn by (simp add: Let_def XBufDescriptor_SetNextPtr_def)
  have neq: "bd_word (slot k M i) off \<noteq> bd_word (slot k M i') off'"
    if "i \<le> j" "i' \<le> j" "off \<in> set (field_offsets k)" "off' \<in> set (field_offsets k)"
      "i \<noteq> i' \<or> off \<noteq> off'" for i i' off off'
    using slot_word_neq [OF fits lay _ _ that(3,4,5)] that(1,2) j by simp
  have m1_old: "?m1 (bd_word (slot k M i) off) = m (bd_word (slot k M i) off)"
    if "i < j" "off \<in> set (field_offsets k)" for i off
  proof (rule Initialize_other, rule ballI)
    fix off' assume "off' \<in> set (field_offsets k)"
    then show "bd_word (slot k M i) off \<noteq> bd_word (slot k M j) off'"
      using neq [of i j off off'] that by simp
  qed
  have m1_new: "?m1 (bd_word (slot k M j) off) = XBD_INITIAL_VALUE k off"
    if "off \<in> set (field_offsets k)" for off
    using lay that by (rule Initialize_at)
  have m2_at: "?m2 (bd_word (slot k M i) off) = ?m1 (bd_word (slot k M i) off)"
    if "i \<le> j" "off \<in> set (field_offsets k)" "Suc i \<noteq> j \<or> off \<noteq> ?n" for i off
  proof (cases "j = 0")
    case True
    then show ?thesis by simp
  next
    case False
    then have "bd_word (slot k M i) off \<noteq> ?prev"
      using neq [of i "j - 1" off ?n] that field_mem(7) [of k] by auto
    then show ?thesis by simp
  qed
  have c1: "?m2 (bd_word (slot k M i) ?n) = V_TO_P c (slot k M (Suc i))" if "Suc i < Suc j" for i
  proof (cases "Suc i = j")
    case True
    then have "j \<noteq> 0" "j - 1 = i" by simp_all
    then show ?thesis using True by simp
  next
    case False
    with that have i: "Suc i < j" by simp
    then have "?m2 (bd_word (slot k M i) ?n) = ?m1 (bd_word (slot k M i) ?n)"
      using m2_at [of i ?n] False field_mem(7) [of k] by simp
    also have "\<dots> = m (bd_word (slot k M i) ?n)"
      using m1_old [of i ?n] i field_mem(7) [of k] by simp
    also have "\<dots> = V_TO_P c (slot k M (Suc i))"
      using inv i by (simp add: created_upto_def)
    finally show ?thesis .
  qed
  have c2: "?m2 (bd_word (slot k M j) ?n) = XBD_INITIAL_VALUE k ?n"
    using m2_at [of j ?n] m1_new [of ?n] field_mem(7) [of k] by simp
  have c3: "?m2 (bd_word (slot k M i) off) = XBD_INITIAL_VALUE k off"
    if "i < Suc j" "off \<in> set (copied_offsets k)" for i off
  proof -
    have f: "off \<in> set (field_offsets k)" using that(2) by (rule copied_subset)
    have "off \<noteq> ?n" using layout_distinct(1) [OF lay] that(2) by auto
    then have a: "?m2 (bd_word (slot k M i) off) = ?m1 (bd_word (slot k M i) off)"
      using m2_at [of i off] that(1) f by simp
    show ?thesis
    proof (cases "i = j")
      case True
      then show ?thesis using a m1_new [OF f] by simp
    next
      case False
      with that(1) have i: "i < j" by simp
      have "m (bd_word (slot k M i) off) = XBD_INITIAL_VALUE k off"
        using inv i that(2) by (simp add: created_upto_def)
      then show ?thesis using a m1_old [OF i f] by simp
    qed
  qed
  have c4: "?m2 a = m0 a"
    if a: "\<forall>i<Suc j. \<forall>off \<in> set (field_offsets k). a \<noteq> bd_word (slot k M i) off" for a
  proof -
    have "a \<noteq> ?prev" if "j \<noteq> 0"
      using a [rule_format, of "j - 1" ?n] that field_mem(7) [of k] by simp
    then have "?m2 a = ?m1 a" by simp
    also have "\<dots> = m a"
      using a by (intro Initialize_other) simp
    also have "\<dots> = m0 a"
      using inv a by (simp add: created_upto_def)
    finally show ?thesis .
  qed
  have "created_upto k c m0 M (Suc j) ?m2"
    unfolding created_upto_def
  proof (intro conjI allI impI ballI)
    fix i assume "Suc i < Suc j"
    then show "?m2 (bd_word (slot k M i) ?n) = V_TO_P c (slot k M (Suc i))" by (rule c1)
  next
    show "?m2 (bd_word (slot k M (Suc j - 1)) ?n) = XBD_INITIAL_VALUE k ?n"
      using c2 by simp
  next
    fix i off assume "i < Suc j" "off \<in> set (copied_offsets k)"
    then show "?m2 (bd_word (slot k M i) off) = XBD_INITIAL_VALUE k off" by (rule c3)
  next
    fix a
    assume "\<forall>i<Suc j. \<forall>off \<in> set (field_offsets k). a \<noteq> bd_word (slot k M i) off"
    then show "?m2 a = m0 a" by (rule c4)
  qed
  then show ?thesis
    by (simp only: m2)
qed

lemma CreateSgList_loop_result:
  assumes sz: "0 < unat (sizeof_XBufDescriptor k)"
    and nowrap: "unat B + unat (sizeof_XBufDescriptor k) < 2 ^ 32"
    and step: "\<And>j m. j < slot_count k B \<Longrightarrow> I j m \<Longrightarrow>
      I (Suc j)
        (let m1 = XBufDescriptor_Initialize k m (slot k M j)
         in if (if j = 0 then 0 else slot k M (j - 1)) \<noteq> 0
            then XBufDescriptor_SetNextPtr k m1 (if j = 0 then 0 else slot k M (j - 1))
                   (V_TO_P c (slot k M j))
            else m1)"
    and j: "j \<le> slot_count k B"
    and inv: "I j (mem s)"
    and ch: "chan s = c\<lparr>TotalDescriptorCount := of_nat j\<rparr>"
    and buf: "buf = (if j = 0 then M else slot k M (j - 1))"
    and prev: "prev = (if j = 0 then 0 else slot k M (j - 1))"
  shows "\<exists>m'. CreateSgList_loop k M B s buf prev (of_nat j * sizeof_XBufDescriptor k) =
           Some (s\<lparr>chan := c\<lparr>TotalDescriptorCount := of_nat (slot_count k B)\<rparr>, mem := m'\<rparr>,
                 if slot_count k B = 0 then M else slot k M (slot_count k B - 1))
         \<and> I (slot_count k B) m'"
  using j inv ch buf prev
proof (induction "slot_count k B - j" arbitrary: j s buf prev)
  case 0
  from 0 have jn: "j = slot_count k B" by simp
  have "\<not> (of_nat j * sizeof_XBufDescriptor k + sizeof_XBufDescriptor k \<le> B)"
    using loop_test [OF sz nowrap "0.prems"(1)] jn by simp
  then have "CreateSgList_loop k M B s buf prev (of_nat j * sizeof_XBufDescriptor k) = Some (s, buf)"
    by (subst CreateSgList_loop.simps) simp
  moreover have "s = s\<lparr>chan := c\<lparr>TotalDescriptorCount := of_nat (slot_count k B)\<rparr>, mem := mem s\<rparr>"
    using "0.prems"(3) jn by simp
  moreover have "buf = (if slot_count k B = 0 then M else slot k M (slot_count k B - 1))"
    using "0.prems"(4) jn by simp
  moreover have "I (slot_count k B) (mem s)"
    using "0.prems"(2) jn by simp
  ultimately show ?case
    by (intro exI [of _ "mem s"]) simp
next
  case (Suc d)
  from Suc have jn: "j < slot_count k B" by simp
  let ?sz = "sizeof_XBufDescriptor k"
  let ?m2 = "(let m1 = XBufDescriptor_Initialize k (mem s) (slot k M j)
      in if (if j = 0 then 0 else slot k M (j - 1)) \<noteq> 0
         then XBufDescriptor_SetNextPtr k m1 (if j = 0 then 0 else slot k M (j - 1))
                (V_TO_P c (slot k M j))
         else m1)"
  let ?s' = "s\<lparr>chan := (chan s)\<lparr>TotalDescriptorCount := TotalDescriptorCount (chan s) + 1\<rparr>,
               mem := ?m2\<rparr>"
  have test: "of_nat j * ?sz + ?sz \<le> B"
    using loop_test [OF sz nowrap Suc.prems(1)] jn by simp
  have used: "of_nat j * ?sz + ?sz = of_nat (Suc j) * ?sz"
    by (simp add: distrib_right)
  have vp: "\<And>v. V_TO_P (chan s) v = V_TO_P c v"
    using Suc.prems(3) by simp
  have "CreateSgList_loop k M B s buf prev (of_nat j * ?sz) =
      CreateSgList_loop k M B ?s' (M + of_nat j * ?sz) (M + of_nat j * ?sz)
        (of_nat j * ?sz + ?sz)"
    apply (subst CreateSgList_loop.simps)
    apply (simp only: test if_True Let_def Suc.prems(5) vp slot_def)
    done
  then have unfold: "CreateSgList_loop k M B s buf prev (of_nat j * ?sz) =
      CreateSgList_loop k M B ?s' (slot k M j) (slot k M j) (of_nat (Suc j) * ?sz)"
    by (simp only: used slot_def)
  have inv': "I (Suc j) (mem ?s')"
    using step [OF jn Suc.prems(2)] by simp
  have ch': "chan ?s' = c\<lparr>TotalDescriptorCount := of_nat (Suc j)\<rparr>"
    using Suc.prems(3) by simp
  have d: "d = slot_count k B - Suc j" using Suc.hyps(2) by simp
  have j': "Suc j \<le> slot_count k B" using jn by simp
  have "\<exists>m'. CreateSgList_loop k M B ?s' (slot k M j) (slot k M j) (of_nat (Suc j) * ?sz) =
           Some (?s'\<lparr>chan := c\<lparr>TotalDescriptorCount := of_nat (slot_count k B)\<rparr>, mem := m'\<rparr>,
                 if slot_count k B = 0 then M else slot k M (slot_count k B - 1))
         \<and> I (slot_count k B) m'"
    by (rule Suc.hyps(1) [OF d j' inv' ch']) simp_all
  then obtain m' where
    r: "CreateSgList_loop k M B ?s' (slot k M j) (slot k M j) (of_nat (Suc j) * ?sz) =
           Some (?s'\<lparr>chan := c\<lparr>TotalDescriptorCount := of_nat (slot_count k B)\<rparr>, mem := m'\<rparr>,
                 if slot_count k B = 0 then M else slot k M (slot_count k B - 1))"
    and c: "I (slot_count k B) m'"
    by blast
  have same: "?s'\<lparr>chan := c\<lparr>TotalDescriptorCount := of_nat (slot_count k B)\<rparr>, mem := m'\<rparr> =
      s\<lparr>chan := c\<lparr>TotalDescriptorCount := of_nat (slot_count k B)\<rparr>, mem := m'\<rparr>"
    by simp
  show ?case
    unfolding unfold r same using c by (intro exI [of _ m']) simp
qed

lemma slot_count_pos:
  assumes "sizeof_XBufDescriptor k \<le> B" and "sizeof_XBufDescriptor k \<noteq> 0"
  shows "0 < slot_count k B"
proof -
  have "0 < unat (sizeof_XBufDescriptor k)" using assms(2) by (simp add: unat_gt_0)
  moreover have "unat (sizeof_XBufDescriptor k) \<le> unat B"
    using assms(1) by (simp add: word_le_nat_alt)
  ultimately show ?thesis by (simp add: slot_count_def div_greater_zero_iff)
qed

lemma slot_count_unat:
  "unat (of_nat (slot_count k B) :: u32) = slot_count k B"
proof -
  have "slot_count k B \<le> unat B" by (simp add: slot_count_def)
  then show ?thesis by (rule le_unat_uoi)
qed

lemma V_TO_P_cong:
  "VirtPtr c = VirtPtr c' \<Longrightarrow> PhyPtr c = PhyPtr c' \<Longrightarrow> V_TO_P c v = V_TO_P c' v"
  by (simp add: V_TO_P_def)

lemma CreateSgList_returns:
  assumes nonnull: "MemoryPtr \<noteq> 0" and aligned: "MemoryPtr AND 3 = 0"
    and enough: "sizeof_XBufDescriptor k \<le> ByteCount"
    and ready: "IsReady (chan s) = XCOMPONENT_IS_READY k"
    and sz: "sizeof_XBufDescriptor k \<noteq> 0"
    and nowrap: "unat ByteCount + unat (sizeof_XBufDescriptor k) < 2 ^ 32"
    and fresh: "TotalDescriptorCount (chan s) = 0"
    and inv0: "I 0 (mem s)"
    and step: "\<And>j m. j < slot_count k ByteCount \<Longrightarrow> I j m \<Longrightarrow>
      I (Suc j)
        (let m1 = XBufDescriptor_Initialize k m (slot k MemoryPtr j)
         in if (if j = 0 then 0 else slot k MemoryPtr (j - 1)) \<noteq> 0
            then XBufDescriptor_SetNextPtr k m1 (if j = 0 then 0 else slot k MemoryPtr (j - 1))
                   (V_TO_P ((chan s)\<lparr>VirtPtr := MemoryPtr, PhyPtr := PhysPtr\<rparr>)
                      (slot k MemoryPtr j))
            else m1)"
  shows "\<exists>m'. XDmaChannel_CreateSgList k s MemoryPtr ByteCount PhysPtr =
      Some (XST_SUCCESS,
        s\<lparr>chan := (chan s)
            \<lparr>VirtPtr := MemoryPtr, PhyPtr := PhysPtr,
             TotalDescriptorCount := of_nat (slot_count k ByteCount),
             PutPtr := slot k MemoryPtr (slot_count k ByteCount - 1),
             GetPtr := slot k MemoryPtr (slot_count k ByteCount - 1),
             CommitPtr := 0,
             LastPtr := slot k MemoryPtr (slot_count k ByteCount - 1),
             ActiveDescriptorCount := 0, ActivePacketCount := 0, Committed := False\<rparr>,
          mem := m'(bd_word (slot k MemoryPtr (slot_count k ByteCount - 1))
                      (XBD_NEXT_PTR_OFFSET k) :=
                    V_TO_P ((chan s)\<lparr>VirtPtr := MemoryPtr, PhyPtr := PhysPtr\<rparr>) MemoryPtr)\<rparr>)
    \<and> I (slot_count k ByteCount) m'"
proof -
  let ?n = "slot_count k ByteCount"
  let ?c = "(chan s)\<lparr>VirtPtr := MemoryPtr, PhyPtr := PhysPtr\<rparr>"
  let ?s1 = "s\<lparr>chan := ?c\<rparr>"
  have szn: "0 < unat (sizeof_XBufDescriptor k)" using sz by (simp add: unat_gt_0)
  have npos: "0 < ?n" using enough sz by (rule slot_count_pos)
  have bc: "ByteCount \<noteq> 0" using enough sz by auto
  have lt: "\<not> ByteCount < sizeof_XBufDescriptor k" using enough by simp
  have inv0': "I 0 (mem ?s1)"
    using inv0 by simp
  have ch0: "chan ?s1 = ?c\<lparr>TotalDescriptorCount := of_nat 0\<rparr>"
    using fresh by simp
  have "\<exists>m'. CreateSgList_loop k MemoryPtr ByteCount ?s1 MemoryPtr 0
             (of_nat 0 * sizeof_XBufDescriptor k) =
           Some (?s1\<lparr>chan := ?c\<lparr>TotalDescriptorCount := of_nat ?n\<rparr>, mem := m'\<rparr>,
                 if ?n = 0 then MemoryPtr else slot k MemoryPtr (?n - 1))
         \<and> I ?n m'"
    by (rule CreateSgList_loop_result [where I = I, OF szn nowrap step _ inv0' ch0]) simp_all
  then obtain m' where
    loop: "CreateSgList_loop k MemoryPtr ByteCount ?s1 MemoryPtr 0 0 =
           Some (?s1\<lparr>chan := ?c\<lparr>TotalDescriptorCount := of_nat ?n\<rparr>, mem := m'\<rparr>,
                 slot k MemoryPtr (?n - 1))"
    and cr: "I ?n m'"
    using npos by auto
  let ?last = "slot k MemoryPtr (?n - 1)"
  let ?mf = "m'(bd_word ?last (XBD_NEXT_PTR_OFFSET k) := V_TO_P ?c MemoryPtr)"
  have result: "XDmaChannel_CreateSgList k s MemoryPtr ByteCount PhysPtr =
      Some (XST_SUCCESS,
        s\<lparr>chan := (chan s)
            \<lparr>VirtPtr := MemoryPtr, PhyPtr := PhysPtr,
             TotalDescriptorCount := of_nat ?n,
             PutPtr := ?last, GetPtr := ?last, CommitPtr := 0, LastPtr := ?last,
             ActiveDescriptorCount := 0, ActivePacketCount := 0, Committed := False\<rparr>,
          mem := ?mf\<rparr>)"
    unfolding XDmaChannel_CreateSgList_def Let_def
    using nonnull aligned bc lt ready fresh
    by (simp add: loop XBufDescriptor_SetNextPtr_def)
  show ?thesis
    using result cr by (intro exI [of _ m']) simp
qed

lemma CreateSgList_success:
  assumes nonnull: "MemoryPtr \<noteq> 0" and aligned: "MemoryPtr AND 3 = 0"
    and enough: "sizeof_XBufDescriptor k \<le> ByteCount"
    and ready: "IsReady (chan s) = XCOMPONENT_IS_READY k"
    and lay: "layout_ok k"
    and nowrap: "unat ByteCount + unat (sizeof_XBufDescriptor k) < 2 ^ 32"
    and fits: "region_fits MemoryPtr ByteCount"
    and fresh: "TotalDescriptorCount (chan s) = 0"
  shows "\<exists>m'. XDmaChannel_CreateSgList k s MemoryPtr ByteCount PhysPtr =
      Some (XST_SUCCESS,
        s\<lparr>chan := (chan s)
            \<lparr>VirtPtr := MemoryPtr, PhyPtr := PhysPtr,
             TotalDescriptorCount := of_nat (slot_count k ByteCount),
             PutPtr := slot k MemoryPtr (slot_count k ByteCount - 1),
             GetPtr := slot k MemoryPtr (slot_count k ByteCount - 1),
             CommitPtr := 0,
             LastPtr := slot k MemoryPtr (slot_count k ByteCount - 1),
             ActiveDescriptorCount := 0, ActivePacketCount := 0, Committed := False\<rparr>,
          mem := m'\<rparr>)
    \<and> (\<forall>i < slot_count k ByteCount.
          m' (bd_word (slot k MemoryPtr i) (XBD_NEXT_PTR_OFFSET k)) =
            V_TO_P ((chan s)\<lparr>VirtPtr := MemoryPtr, PhyPtr := PhysPtr\<rparr>)
              (slot k MemoryPtr (Suc i mod slot_count k ByteCount)))
    \<and> (\<forall>i < slot_count k ByteCount. \<forall>off \<in> set (copied_offsets k).
          m' (bd_word (slot k MemoryPtr i) off) = XBD_INITIAL_VALUE k off)
    \<and> (\<forall>a. (\<forall>i < slot_count k ByteCount. \<forall>off \<in> set (field_offsets k).
               a \<noteq> bd_word (slot k MemoryPtr i) off) \<longrightarrow> m' a = mem s a)"
proof -
  let ?n = "slot_count k ByteCount"
  let ?nx = "XBD_NEXT_PTR_OFFSET k"
  let ?c = "(chan s)\<lparr>VirtPtr := MemoryPtr, PhyPtr := PhysPtr\<rparr>"
  note szn = layout_size [OF lay]
  then have sz: "sizeof_XBufDescriptor k \<noteq> 0" by auto
  have npos: "0 < ?n" using enough sz by (rule slot_count_pos)
  have inv0: "created_upto k ?c (mem s) MemoryPtr 0 (mem s)"
    by (simp add: created_upto_def)
  let ?last = "slot k MemoryPtr (?n - 1)"
  from CreateSgList_returns [where I = "created_upto k ?c (mem s) MemoryPtr",
      OF nonnull aligned enough ready sz nowrap fresh inv0 created_upto_step [OF fits lay]]
  obtain m' where
    result: "XDmaChannel_CreateSgList k s MemoryPtr ByteCount PhysPtr =
      Some (XST_SUCCESS,
        s\<lparr>chan := (chan s)
            \<lparr>VirtPtr := MemoryPtr, PhyPtr := PhysPtr,
             TotalDescriptorCount := of_nat ?n,
             PutPtr := ?last, GetPtr := ?last, CommitPtr := 0, LastPtr := ?last,
             ActiveDescriptorCount := 0, ActivePacketCount := 0, Committed := False\<rparr>,
          mem := m'(bd_word ?last ?nx := V_TO_P ?c MemoryPtr)\<rparr>)"
    and cr: "created_upto k ?c (mem s) MemoryPtr ?n m'"
    by blast
  let ?mf = "m'(bd_word ?last ?nx := V_TO_P ?c MemoryPtr)"
  have slot0: "slot k MemoryPtr 0 = MemoryPtr" by (simp add: slot_def)
  have neq: "bd_word (slot k MemoryPtr i) off \<noteq> bd_word ?last ?nx"
    if "i < ?n" "off \<in> set (field_offsets k)" "i \<noteq> ?n - 1 \<or> off \<noteq> ?nx" for i off
    using slot_word_neq [OF fits lay that(1) _ that(2) field_mem(7) that(3)] npos by simp
  have ring: "?mf (bd_word (slot k MemoryPtr i) ?nx) =
      V_TO_P ?c (slot k MemoryPtr (Suc i mod ?n))"
    if i: "i < ?n" for i
  proof (cases "Suc i < ?n")
    case True
    then have "bd_word (slot k MemoryPtr i) ?nx \<noteq> bd_word ?last ?nx"
      using neq [OF i field_mem(7)] by simp
    moreover have "m' (bd_word (slot k MemoryPtr i) ?nx) = V_TO_P ?c (slot k MemoryPtr (Suc i))"
      using cr True by (simp add: created_upto_def)
    ultimately show ?thesis
      using True by simp
  next
    case False
    with i have il: "i = ?n - 1" by simp
    then have "Suc i mod ?n = 0" using npos by simp
    then show ?thesis
      using il by (simp add: slot0)
  qed
  have init: "?mf (bd_word (slot k MemoryPtr i) off) = XBD_INITIAL_VALUE k off"
    if i: "i < ?n" and off: "off \<in> set (copied_offsets k)" for i off
  proof -
    have "off \<noteq> ?nx" using layout_distinct(1) [OF lay] off by auto
    then have "bd_word (slot k MemoryPtr i) off \<noteq> bd_word ?last ?nx"
      using neq [OF i copied_subset [OF off]] by simp
    moreover have "m' (bd_word (slot k MemoryPtr i) off) = XBD_INITIAL_VALUE k off"
      using cr i off by (simp add: created_upto_def)
    ultimately show ?thesis by simp
  qed
  have frame: "?mf a = mem s a"
    if a: "\<forall>i<?n. \<forall>off \<in> set (field_offsets k). a \<noteq> bd_word (slot k MemoryPtr i) off" for a
  proof -
    have "a \<noteq> bd_word ?last ?nx"
      using a [rule_format, of "?n - 1" ?nx] npos field_mem(7) [of k] by simp
    moreover have "m' a = mem s a" using cr a by (simp add: created_upto_def)
    ultimately show ?thesis by simp
  qed
  show ?thesis
    using result ring init frame by (intro exI [of _ ?mf]) blast
qed

lemmas eval_defs =
  XDmaChannel_PutDescriptor_def XDmaChannel_CommitPuts_def XDmaChannel_GetDescriptor_def
  XDmaChannel_IsSgListEmpty_def accessor_defs CopyBufferDescriptor_def copied_offsets_def
  bd_word_def P_TO_V_def V_TO_P_def Let_def demo_defs demo_created_def stop_set_def
  stop_clear_def

lemma demo_create:
  "XDmaChannel_CreateSgList demo_params demo_machine 0x1000 160 0x2000 =
     Some (XST_SUCCESS, demo_created)"
proof -
  have m: "((\<lambda>a. 0)
     (4100 := 0, 4104 := 0, 4108 := 0, 4112 := 0, 4116 := 0, 4096 := 0,
        4124 := 0, 4128 := 0, 4132 := 0, 4140 := 0, 4144 := 0, 4148 := 0,
        4152 := 0, 4156 := 0, 4136 := 0, 4164 := 0, 4168 := 0, 4172 := 0,
        4120 := 8232, 4180 := 0, 4184 := 0, 4188 := 0, 4192 := 0, 4196 := 0,
        4176 := 0, 4204 := 0, 4208 := 0, 4212 := 0, 4160 := 8272, 4220 := 0,
        4224 := 0, 4228 := 0, 4232 := 0, 4236 := 0, 4216 := 0, 4244 := 0,
        4248 := 0, 4252 := 0, 4200 := 8312, 4240 := 8192) :: u32 \<Rightarrow> u32) =
     (\<lambda>a. 0)(4120 := 8232, 4160 := 8272, 4200 := 8312, 4240 := 8192)"
    by (rule ext) simp
  show ?thesis
    by (simp add: XDmaChannel_CreateSgList_def demo_defs demo_created_def Let_def
       CreateSgList_loop.simps V_TO_P_def XBufDescriptor_SetNextPtr_def
       XBufDescriptor_Initialize_def field_offsets_def bd_word_def m)
qed


text \<open>
  C6, as the claim states it, fails: after a successful \<open>XDmaChannel_CreateSgList\<close> the
  three cursors are on the last slot carved, not on the first. On a region of four
  descriptors at \<open>0x1000\<close> they are \<open>0x1078\<close>.
\<close>

theorem create_sg_list_last_slot_counterexample:
  "XDmaChannel_CreateSgList demo_params demo_machine 0x1000 160 0x2000 =
     Some (XST_SUCCESS, demo_created)
   \<and> PutPtr (chan demo_created) = 0x1078
   \<and> GetPtr (chan demo_created) = 0x1078
   \<and> LastPtr (chan demo_created) = 0x1078
   \<and> PutPtr (chan demo_created) \<noteq> 0x1000"
  using demo_create by (simp add: demo_created_def)

text \<open>
  C6, amended. Take a call that passes its assertions, on a region that lies inside the
  address space and whose \<open>ByteCount + sizeof(XBufDescriptor)\<close> does not wrap. If
  \<open>TotalDescriptorCount\<close> is not 0 the call returns \<open>XST_DMA_SG_LIST_EXISTS\<close> and changes
  nothing. Otherwise it returns \<open>XST_SUCCESS\<close> (the loop ends), with
  \<open>TotalDescriptorCount = ByteCount div sizeof(XBufDescriptor)\<close>; \<open>PutPtr\<close>, \<open>GetPtr\<close>
  and \<open>LastPtr\<close> are the last slot; \<open>CommitPtr\<close> is \<open>NULL\<close>, both counters are 0 and
  \<open>Committed\<close> is false. With a descriptor layout of ten different words inside
  \<open>sizeof(XBufDescriptor)\<close>, the next pointer of every slot is the physical address of
  the following slot, the last slot pointing back to the first; the nine other words of
  every slot hold their initial values; and no word outside the slots is written.
\<close>

theorem create_sg_list_result:
  assumes "MemoryPtr \<noteq> 0" and "MemoryPtr AND 3 = 0"
    and "sizeof_XBufDescriptor k \<le> ByteCount"
    and "IsReady (chan s) = XCOMPONENT_IS_READY k"
    and "sizeof_XBufDescriptor k \<noteq> 0"
    and "unat ByteCount + unat (sizeof_XBufDescriptor k) < 2 ^ 32"
    and "region_fits MemoryPtr ByteCount"
  shows
    "(TotalDescriptorCount (chan s) \<noteq> 0 \<longrightarrow>
        XDmaChannel_CreateSgList k s MemoryPtr ByteCount PhysPtr =
          Some (XST_DMA_SG_LIST_EXISTS, s))
     \<and> (TotalDescriptorCount (chan s) = 0 \<longrightarrow>
        (\<exists>s'. XDmaChannel_CreateSgList k s MemoryPtr ByteCount PhysPtr = Some (XST_SUCCESS, s')
          \<and> unat (TotalDescriptorCount (chan s')) =
                unat ByteCount div unat (sizeof_XBufDescriptor k)
          \<and> PutPtr (chan s') = slot k MemoryPtr (slot_count k ByteCount - 1)
          \<and> GetPtr (chan s') = slot k MemoryPtr (slot_count k ByteCount - 1)
          \<and> LastPtr (chan s') = slot k MemoryPtr (slot_count k ByteCount - 1)
          \<and> CommitPtr (chan s') = 0
          \<and> ActiveDescriptorCount (chan s') = 0
          \<and> ActivePacketCount (chan s') = 0
          \<and> \<not> Committed (chan s')
          \<and> VirtPtr (chan s') = MemoryPtr \<and> PhyPtr (chan s') = PhysPtr
          \<and> (layout_ok k \<longrightarrow>
               (\<forall>i < slot_count k ByteCount.
                  XBufDescriptor_GetNextPtr k (mem s') (slot k MemoryPtr i) =
                    V_TO_P (chan s') (slot k MemoryPtr (Suc i mod slot_count k ByteCount))
                  \<and> (\<forall>off \<in> set (copied_offsets k).
                        mem s' (bd_word (slot k MemoryPtr i) off) = XBD_INITIAL_VALUE k off))
               \<and> (\<forall>a. (\<forall>i < slot_count k ByteCount. \<forall>off \<in> set (field_offsets k).
                          a \<noteq> bd_word (slot k MemoryPtr i) off)
                     \<longrightarrow> mem s' a = mem s a))))"
proof (intro conjI impI)
  assume "TotalDescriptorCount (chan s) \<noteq> 0"
  moreover have "ByteCount \<noteq> 0" using assms(3,5) by auto
  moreover have "\<not> ByteCount < sizeof_XBufDescriptor k" using assms(3) by simp
  ultimately show "XDmaChannel_CreateSgList k s MemoryPtr ByteCount PhysPtr =
      Some (XST_DMA_SG_LIST_EXISTS, s)"
    using assms(1,2,4) by (simp add: XDmaChannel_CreateSgList_def)
next
  assume fresh: "TotalDescriptorCount (chan s) = 0"
  let ?n = "slot_count k ByteCount"
  let ?c = "(chan s)\<lparr>VirtPtr := MemoryPtr, PhyPtr := PhysPtr\<rparr>"
  let ?last = "slot k MemoryPtr (?n - 1)"
  let ?ch = "(chan s)
            \<lparr>VirtPtr := MemoryPtr, PhyPtr := PhysPtr,
             TotalDescriptorCount := of_nat ?n,
             PutPtr := ?last, GetPtr := ?last, CommitPtr := 0, LastPtr := ?last,
             ActiveDescriptorCount := 0, ActivePacketCount := 0, Committed := False\<rparr>"
  from CreateSgList_returns [where I = "\<lambda>j m. True", OF assms(1-6) fresh, of PhysPtr]
  obtain m0 where
    r0: "XDmaChannel_CreateSgList k s MemoryPtr ByteCount PhysPtr =
      Some (XST_SUCCESS,
        s\<lparr>chan := ?ch,
          mem := m0(bd_word ?last (XBD_NEXT_PTR_OFFSET k) := V_TO_P ?c MemoryPtr)\<rparr>)"
    by blast
  let ?s' = "s\<lparr>chan := ?ch,
          mem := m0(bd_word ?last (XBD_NEXT_PTR_OFFSET k) := V_TO_P ?c MemoryPtr)\<rparr>"
  have vp: "\<And>v. V_TO_P (chan ?s') v = V_TO_P ?c v"
    by (simp add: V_TO_P_def)
  have total: "unat (TotalDescriptorCount (chan ?s')) =
      unat ByteCount div unat (sizeof_XBufDescriptor k)"
    using slot_count_unat [of k ByteCount] by (simp add: slot_count_def)
  have store: "(\<forall>i < ?n.
                  XBufDescriptor_GetNextPtr k (mem ?s') (slot k MemoryPtr i) =
                    V_TO_P (chan ?s') (slot k MemoryPtr (Suc i mod ?n))
                  \<and> (\<forall>off \<in> set (copied_offsets k).
                        mem ?s' (bd_word (slot k MemoryPtr i) off) = XBD_INITIAL_VALUE k off))
               \<and> (\<forall>a. (\<forall>i < ?n. \<forall>off \<in> set (field_offsets k).
                          a \<noteq> bd_word (slot k MemoryPtr i) off)
                     \<longrightarrow> mem ?s' a = mem s a)"
    if lay: "layout_ok k"
  proof -
    from CreateSgList_success [OF assms(1-4) lay assms(6,7) fresh, of PhysPtr] obtain m' where
      r: "XDmaChannel_CreateSgList k s MemoryPtr ByteCount PhysPtr =
        Some (XST_SUCCESS, s\<lparr>chan := ?ch, mem := m'\<rparr>)"
      and ring: "\<forall>i < ?n. m' (bd_word (slot k MemoryPtr i) (XBD_NEXT_PTR_OFFSET k)) =
            V_TO_P ?c (slot k MemoryPtr (Suc i mod ?n))"
      and init: "\<forall>i < ?n. \<forall>off \<in> set (copied_offsets k).
            m' (bd_word (slot k MemoryPtr i) off) = XBD_INITIAL_VALUE k off"
      and frame: "\<forall>a. (\<forall>i < ?n. \<forall>off \<in> set (field_offsets k).
               a \<noteq> bd_word (slot k MemoryPtr i) off) \<longrightarrow> m' a = mem s a"
      by blast
    from r r0 have "s\<lparr>chan := ?ch, mem := m'\<rparr> = ?s'"
      by simp
    then have "mem (s\<lparr>chan := ?ch, mem := m'\<rparr>) = mem ?s'"
      by (rule arg_cong)
    then have m: "mem ?s' = m'"
      by simp
    show ?thesis
      unfolding m vp XBufDescriptor_GetNextPtr_def
      using ring init frame by blast
  qed
  show "\<exists>s'. XDmaChannel_CreateSgList k s MemoryPtr ByteCount PhysPtr = Some (XST_SUCCESS, s')
          \<and> unat (TotalDescriptorCount (chan s')) =
                unat ByteCount div unat (sizeof_XBufDescriptor k)
          \<and> PutPtr (chan s') = ?last
          \<and> GetPtr (chan s') = ?last
          \<and> LastPtr (chan s') = ?last
          \<and> CommitPtr (chan s') = 0
          \<and> ActiveDescriptorCount (chan s') = 0
          \<and> ActivePacketCount (chan s') = 0
          \<and> \<not> Committed (chan s')
          \<and> VirtPtr (chan s') = MemoryPtr \<and> PhyPtr (chan s') = PhysPtr
          \<and> (layout_ok k \<longrightarrow>
               (\<forall>i < ?n.
                  XBufDescriptor_GetNextPtr k (mem s') (slot k MemoryPtr i) =
                    V_TO_P (chan s') (slot k MemoryPtr (Suc i mod ?n))
                  \<and> (\<forall>off \<in> set (copied_offsets k).
                        mem s' (bd_word (slot k MemoryPtr i) off) = XBD_INITIAL_VALUE k off))
               \<and> (\<forall>a. (\<forall>i < ?n. \<forall>off \<in> set (field_offsets k).
                          a \<noteq> bd_word (slot k MemoryPtr i) off)
                     \<longrightarrow> mem s' a = mem s a))"
    apply (rule exI [of _ ?s'])
    apply (intro conjI)
                apply (rule r0)
               apply (rule total)
              apply simp
             apply simp
            apply simp
           apply simp
          apply simp
         apply simp
        apply simp
       apply simp
      apply simp
     apply (rule impI)
     apply (erule store)
    done
qed

theorem create_sg_list_result_witness:
  "\<exists>s'. XDmaChannel_CreateSgList demo_params demo_machine 0x1000 160 0x2000 =
          Some (XST_SUCCESS, s')
     \<and> unat (TotalDescriptorCount (chan s')) = 4
     \<and> PutPtr (chan s') = 0x1078
     \<and> CommitPtr (chan s') = 0
     \<and> XBufDescriptor_GetNextPtr demo_params (mem s') 0x1078 = 0x2000
     \<and> XBufDescriptor_GetControl demo_params (mem s') 0x1078 = 0"
proof -
  have n: "slot_count demo_params 160 = 4"
    by (simp add: slot_count_def demo_defs)
  have last: "slot demo_params 0x1000 3 = 0x1078"
    by (simp add: slot_def demo_defs)
  have first: "slot demo_params 0x1000 0 = 0x1000"
    by (simp add: slot_def demo_defs)
  have d: "unat (160 :: u32) div unat (sizeof_XBufDescriptor demo_params) = 4"
    by (simp add: demo_defs)
  have fresh: "TotalDescriptorCount (chan demo_machine) = 0"
    by (simp add: demo_defs)
  have hyps: "(0x1000 :: u32) \<noteq> 0" "(0x1000 :: u32) AND 3 = 0"
    "sizeof_XBufDescriptor demo_params \<le> 160"
    "IsReady (chan demo_machine) = XCOMPONENT_IS_READY demo_params"
    "sizeof_XBufDescriptor demo_params \<noteq> 0"
    "unat (160 :: u32) + unat (sizeof_XBufDescriptor demo_params) < 2 ^ 32"
    "region_fits 0x1000 160"
    by (simp_all add: demo_defs region_fits_def)
  have lay: "layout_ok demo_params"
    by (simp add: layout_ok_def field_offsets_def demo_params_def)
  have c: "XBD_CONTROL_OFFSET demo_params \<in> set (copied_offsets demo_params)"
    by (simp add: copied_offsets_def)
  from create_sg_list_result [OF hyps, of "0x2000"] fresh lay obtain s' where
    r: "XDmaChannel_CreateSgList demo_params demo_machine 0x1000 160 0x2000 =
       Some (XST_SUCCESS, s')"
    and t: "unat (TotalDescriptorCount (chan s')) =
       unat (160 :: u32) div unat (sizeof_XBufDescriptor demo_params)"
    and p: "PutPtr (chan s') = slot demo_params 0x1000 (slot_count demo_params 160 - 1)"
    and cp: "CommitPtr (chan s') = 0"
    and v: "VirtPtr (chan s') = 0x1000" "PhyPtr (chan s') = 0x2000"
    and ring: "\<forall>i < slot_count demo_params 160.
        XBufDescriptor_GetNextPtr demo_params (mem s') (slot demo_params 0x1000 i) =
          V_TO_P (chan s') (slot demo_params 0x1000 (Suc i mod slot_count demo_params 160))
        \<and> (\<forall>off \<in> set (copied_offsets demo_params).
              mem s' (bd_word (slot demo_params 0x1000 i) off)
                = XBD_INITIAL_VALUE demo_params off)"
    by blast
  from ring [rule_format, of 3] n last first v
  have nx: "XBufDescriptor_GetNextPtr demo_params (mem s') 0x1078 = 0x2000"
    by (simp add: V_TO_P_def)
  from ring [rule_format, of 3, THEN conjunct2, rule_format, OF _ c] n last
  have ct: "XBufDescriptor_GetControl demo_params (mem s') 0x1078 = 0"
    by (simp add: XBufDescriptor_GetControl_def demo_params_def)
  from r t p cp nx ct show ?thesis
    using n last d by (intro exI [of _ s']) simp
qed

subsection \<open>Put: what a successful call does\<close>

lemma put_success_conds:
  assumes "XDmaChannel_PutDescriptor k s b = (XST_SUCCESS, s')"
  shows "b \<noteq> 0 \<and> b AND 3 = 0 \<and> IsReady (chan s) = XCOMPONENT_IS_READY k
    \<and> TotalDescriptorCount (chan s) \<noteq> 0
    \<and> ActiveDescriptorCount (chan s) \<noteq> TotalDescriptorCount (chan s)
    \<and> \<not> XBufDescriptor_IsLocked k (mem s) (PutPtr (chan s))"
  using assms
  by (auto simp: XDmaChannel_PutDescriptor_def Let_def split: if_splits)

lemma put_success_mem:
  assumes "XDmaChannel_PutDescriptor k s b = (XST_SUCCESS, s')"
  shows "mem s' =
    (let m3 = (mem s)
           (bd_word b (XBD_CONTROL_OFFSET k) :=
              mem s (bd_word b (XBD_CONTROL_OFFSET k)) OR XDC_DMACR_SG_DISABLE_MASK k,
            bd_word b (XBD_STATUS_OFFSET k) := XDC_DMASR_BUSY_MASK k,
            bd_word b (XBD_DEVICE_STATUS_OFFSET k) := 0);
         m4 = CopyBufferDescriptor k m3 b (PutPtr (chan s))
     in if CommitPtr (chan s) \<noteq> LastPtr (chan s) \<and> CommitPtr (chan s) \<noteq> 0
        then m4(bd_word (LastPtr (chan s)) (XBD_CONTROL_OFFSET k) :=
                  m4 (bd_word (LastPtr (chan s)) (XBD_CONTROL_OFFSET k))
                    AND NOT (XDC_DMACR_SG_DISABLE_MASK k))
        else m4)"
proof -
  note c = put_success_conds [OF assms]
  have "s' = snd (XDmaChannel_PutDescriptor k s b)" using assms by simp
  then have s': "mem s' = mem (snd (XDmaChannel_PutDescriptor k s b))" by simp
  show ?thesis
    unfolding s' using c
    by (simp add: XDmaChannel_PutDescriptor_def Let_def accessor_defs)
qed

lemma put_success_chan:
  assumes "XDmaChannel_PutDescriptor k s b = (XST_SUCCESS, s')"
  shows "CommitPtr (chan s') =
      (if CommitPtr (chan s) = 0 then LastPtr (chan s) else CommitPtr (chan s))"
    and "ActiveDescriptorCount (chan s') = ActiveDescriptorCount (chan s) + 1"
    and "LastPtr (chan s') = PutPtr (chan s)"
    and "PutPtr (chan s') =
      P_TO_V (chan s) (XBufDescriptor_GetNextPtr k (mem s') (PutPtr (chan s)))"
    and "VirtPtr (chan s') = VirtPtr (chan s)" and "PhyPtr (chan s') = PhyPtr (chan s)"
    and "TotalDescriptorCount (chan s') = TotalDescriptorCount (chan s)"
    and "IsReady (chan s') = IsReady (chan s)"
    and "GetPtr (chan s') = GetPtr (chan s)"
proof -
  note c = put_success_conds [OF assms]
  have eq: "s' = snd (XDmaChannel_PutDescriptor k s b)" using assms by simp
  then have s': "chan s' = chan (snd (XDmaChannel_PutDescriptor k s b))" by simp
  have m': "mem s' = mem (snd (XDmaChannel_PutDescriptor k s b))" using eq by simp
  show "PutPtr (chan s') =
      P_TO_V (chan s) (XBufDescriptor_GetNextPtr k (mem s') (PutPtr (chan s)))"
    unfolding s' m' using c
    by (simp add: XDmaChannel_PutDescriptor_def Let_def)
  show "CommitPtr (chan s') =
      (if CommitPtr (chan s) = 0 then LastPtr (chan s) else CommitPtr (chan s))"
    and "ActiveDescriptorCount (chan s') = ActiveDescriptorCount (chan s) + 1"
    and "LastPtr (chan s') = PutPtr (chan s)"
    and "VirtPtr (chan s') = VirtPtr (chan s)" and "PhyPtr (chan s') = PhyPtr (chan s)"
    and "TotalDescriptorCount (chan s') = TotalDescriptorCount (chan s)"
    and "IsReady (chan s') = IsReady (chan s)"
    and "GetPtr (chan s') = GetPtr (chan s)"
    unfolding s' using c
    by (simp_all add: XDmaChannel_PutDescriptor_def Let_def)
qed

lemma count_step:
  fixes A T :: u32
  assumes "A \<noteq> T" and "A \<le> T"
  shows "unat (A + 1) = unat A + 1"
proof -
  from assms have "A < T" by simp
  then have "unat A < unat T"
    by (simp add: word_less_nat_alt)
  moreover have "unat T < 2 ^ 32"
    using unsigned_less [of T] by simp
  ultimately have "unat A + unat (1 :: u32) < 2 ^ LENGTH(32)"
    by simp
  then show ?thesis using unat_add_lem [of A 1] by simp
qed

text \<open>The words a put writes: every other word of the memory is as before.\<close>

lemma put_frame:
  assumes "a \<noteq> bd_word b (XBD_CONTROL_OFFSET k)"
    and "a \<noteq> bd_word b (XBD_STATUS_OFFSET k)"
    and "a \<noteq> bd_word b (XBD_DEVICE_STATUS_OFFSET k)"
    and "\<forall>off \<in> set (copied_offsets k). a \<noteq> bd_word (PutPtr (chan s)) off"
    and "CommitPtr (chan s) \<noteq> LastPtr (chan s) \<and> CommitPtr (chan s) \<noteq> 0
           \<longrightarrow> a \<noteq> bd_word (LastPtr (chan s)) (XBD_CONTROL_OFFSET k)"
  shows "mem (snd (XDmaChannel_PutDescriptor k s b)) a = mem s a"
proof (cases "fst (XDmaChannel_PutDescriptor k s b) = XST_SUCCESS")
  case True
  then have "XDmaChannel_PutDescriptor k s b =
      (XST_SUCCESS, snd (XDmaChannel_PutDescriptor k s b))"
    by (simp add: prod_eq_iff)
  from put_success_mem [OF this] show ?thesis
    using assms by (simp add: Let_def Copy_other)
next
  case False
  then show ?thesis
    by (auto simp: XDmaChannel_PutDescriptor_def Let_def split: if_splits)
qed







lemma put_next_kept:
  assumes "layout_ok k"
    and "same_or_disjoint k b q"
    and "same_or_disjoint k (PutPtr (chan s)) q"
    and "same_or_disjoint k (LastPtr (chan s)) q"
  shows "XBufDescriptor_GetNextPtr k (mem (snd (XDmaChannel_PutDescriptor k s b))) q
    = XBufDescriptor_GetNextPtr k (mem s) q"
  unfolding XBufDescriptor_GetNextPtr_def
proof (rule put_frame)
  let ?a = "bd_word q (XBD_NEXT_PTR_OFFSET k)"
  show "?a \<noteq> bd_word b (XBD_CONTROL_OFFSET k)"
    using same_or_disjoint_neq [OF assms(1,2) field_mem(1) field_mem(7)]
      layout_distinct(5) [OF assms(1)] by auto
  show "?a \<noteq> bd_word b (XBD_STATUS_OFFSET k)"
    using same_or_disjoint_neq [OF assms(1,2) field_mem(5) field_mem(7)]
      layout_distinct(6) [OF assms(1)] by auto
  show "?a \<noteq> bd_word b (XBD_DEVICE_STATUS_OFFSET k)"
    using same_or_disjoint_neq [OF assms(1,2) field_mem(6) field_mem(7)]
      layout_distinct(7) [OF assms(1)] by auto
  show "\<forall>off \<in> set (copied_offsets k). ?a \<noteq> bd_word (PutPtr (chan s)) off"
  proof
    fix off assume off: "off \<in> set (copied_offsets k)"
    with layout_distinct(1) [OF assms(1)] have "off \<noteq> XBD_NEXT_PTR_OFFSET k"
      by auto
    from same_or_disjoint_neq [OF assms(1,3) copied_subset [OF off] field_mem(7) this]
    show "?a \<noteq> bd_word (PutPtr (chan s)) off"
      by auto
  qed
  show "CommitPtr (chan s) \<noteq> LastPtr (chan s) \<and> CommitPtr (chan s) \<noteq> 0
           \<longrightarrow> ?a \<noteq> bd_word (LastPtr (chan s)) (XBD_CONTROL_OFFSET k)"
    using same_or_disjoint_neq [OF assms(1,4) field_mem(1) field_mem(7)]
      layout_distinct(5) [OF assms(1)] by auto
qed

lemma layout_demo: "layout_ok demo_params"
  by (simp add: layout_ok_def field_offsets_def demo_params_def)

lemma demo_put_success:
  "fst (XDmaChannel_PutDescriptor demo_params demo_ring 0x3000) = XST_SUCCESS"
  by (simp add: XDmaChannel_PutDescriptor_def demo_defs Let_def)

lemma demo_apart:
  "same_or_disjoint demo_params 0x3000 0x1000"
  "same_or_disjoint demo_params 0x3000 0x1028"
  "same_or_disjoint demo_params 0x3000 0x1050"
  "same_or_disjoint demo_params 0x3000 0x1078"
  "same_or_disjoint demo_params 0x1028 0x1000"
  "same_or_disjoint demo_params 0x1000 0x1078"
  by (simp_all add: same_or_disjoint_def disjoint_bd_def field_offsets_def bd_word_def
      demo_params_def)

lemma same_or_disjoint_refl: "same_or_disjoint k p p"
  by (simp add: same_or_disjoint_def)

subsection \<open>Put: the cursors\<close>

text \<open>
  C4, as the claim states it, fails where it says that the new \<open>CommitPtr\<close> is not the
  slot just written. On the freshly created list of four slots \<open>CommitPtr\<close> is \<open>NULL\<close>
  and \<open>LastPtr\<close> and \<open>PutPtr\<close> are both \<open>0x1078\<close>: the first put writes the slot at
  \<open>0x1078\<close> (its status word is now the busy mask) and sets \<open>CommitPtr\<close> to \<open>0x1078\<close>,
  the slot just written.
\<close>

theorem put_commit_ptr_written_slot_counterexample:
  "XDmaChannel_CreateSgList demo_params demo_machine 0x1000 160 0x2000 =
     Some (XST_SUCCESS, demo_created)
   \<and> CommitPtr (chan demo_created) = 0
   \<and> PutPtr (chan demo_created) = 0x1078
   \<and> fst (XDmaChannel_PutDescriptor demo_params demo_created 0x3000) = XST_SUCCESS
   \<and> XBufDescriptor_GetStatus demo_params
        (mem (snd (XDmaChannel_PutDescriptor demo_params demo_created 0x3000))) 0x1078
       = XDC_DMASR_BUSY_MASK demo_params
   \<and> CommitPtr (chan (snd (XDmaChannel_PutDescriptor demo_params demo_created 0x3000)))
       = 0x1078"
  using demo_create by (simp add: eval_defs)

text \<open>
  C4, amended. After a successful \<open>XDmaChannel_PutDescriptor\<close>: when \<open>CommitPtr\<close> was
  \<open>NULL\<close> it is now the \<open>LastPtr\<close> of before the call, which is the slot just written
  exactly when \<open>LastPtr\<close> and \<open>PutPtr\<close> were the same before the call, and otherwise
  it is unchanged; \<open>ActiveDescriptorCount\<close> is one more (as a word, and as a number
  whenever it did not exceed \<open>TotalDescriptorCount\<close>); \<open>LastPtr\<close> is the \<open>PutPtr\<close> of
  before the call; and \<open>PutPtr\<close> is the translation of the next pointer that the slot
  just written holds after the call. That is the next pointer the slot held before the
  call when the layout has ten different words and neither the caller's descriptor nor
  the descriptor at \<open>LastPtr\<close> lies across the slot.
\<close>

theorem put_descriptor_cursors:
  assumes "XDmaChannel_PutDescriptor k s BufferDescriptorPtr = (XST_SUCCESS, s')"
  shows "CommitPtr (chan s') =
      (if CommitPtr (chan s) = 0 then LastPtr (chan s) else CommitPtr (chan s))
    \<and> (CommitPtr (chan s) = 0 \<longrightarrow>
         (CommitPtr (chan s') = PutPtr (chan s)) = (LastPtr (chan s) = PutPtr (chan s)))
    \<and> ActiveDescriptorCount (chan s') = ActiveDescriptorCount (chan s) + 1
    \<and> (ActiveDescriptorCount (chan s) \<le> TotalDescriptorCount (chan s) \<longrightarrow>
         unat (ActiveDescriptorCount (chan s')) = unat (ActiveDescriptorCount (chan s)) + 1)
    \<and> LastPtr (chan s') = PutPtr (chan s)
    \<and> PutPtr (chan s') =
         P_TO_V (chan s') (XBufDescriptor_GetNextPtr k (mem s') (PutPtr (chan s)))
    \<and> (layout_ok k
         \<and> same_or_disjoint k BufferDescriptorPtr (PutPtr (chan s))
         \<and> same_or_disjoint k (LastPtr (chan s)) (PutPtr (chan s)) \<longrightarrow>
         PutPtr (chan s') =
           P_TO_V (chan s) (XBufDescriptor_GetNextPtr k (mem s) (PutPtr (chan s))))"
proof -
  note c = put_success_conds [OF assms]
  note ch = put_success_chan [OF assms]
  have s': "s' = snd (XDmaChannel_PutDescriptor k s BufferDescriptorPtr)"
    using assms by simp
  have commit: "CommitPtr (chan s) = 0 \<longrightarrow>
         (CommitPtr (chan s') = PutPtr (chan s)) = (LastPtr (chan s) = PutPtr (chan s))"
    by (simp add: ch(1))
  have count: "ActiveDescriptorCount (chan s) \<le> TotalDescriptorCount (chan s) \<longrightarrow>
      unat (ActiveDescriptorCount (chan s')) = unat (ActiveDescriptorCount (chan s)) + 1"
    using c count_step [of "ActiveDescriptorCount (chan s)" "TotalDescriptorCount (chan s)"]
    by (simp add: ch(2))
  have after: "PutPtr (chan s') =
      P_TO_V (chan s') (XBufDescriptor_GetNextPtr k (mem s') (PutPtr (chan s)))"
    by (simp add: ch(4,5,6) P_TO_V_def)
  have before: "PutPtr (chan s') =
      P_TO_V (chan s) (XBufDescriptor_GetNextPtr k (mem s) (PutPtr (chan s)))"
    if "layout_ok k" "same_or_disjoint k BufferDescriptorPtr (PutPtr (chan s))"
      "same_or_disjoint k (LastPtr (chan s)) (PutPtr (chan s))"
    using put_next_kept [OF that(1,2) same_or_disjoint_refl that(3)] ch(4)
    by (simp add: s')
  show ?thesis
    using ch(1,2,3) commit count after before by blast
qed

theorem put_descriptor_cursors_witness:
  "CommitPtr (chan demo_created) = 0
   \<and> fst (XDmaChannel_PutDescriptor demo_params demo_created 0x3000) = XST_SUCCESS
   \<and> CommitPtr (chan (snd (XDmaChannel_PutDescriptor demo_params demo_created 0x3000))) = 0x1078
   \<and> ActiveDescriptorCount
        (chan (snd (XDmaChannel_PutDescriptor demo_params demo_created 0x3000))) = 1
   \<and> LastPtr (chan (snd (XDmaChannel_PutDescriptor demo_params demo_created 0x3000))) = 0x1078
   \<and> PutPtr (chan (snd (XDmaChannel_PutDescriptor demo_params demo_created 0x3000))) = 0x1000
   \<and> CommitPtr (chan demo_ring) = 0x1028
   \<and> fst (XDmaChannel_PutDescriptor demo_params demo_ring 0x3000) = XST_SUCCESS
   \<and> CommitPtr (chan (snd (XDmaChannel_PutDescriptor demo_params demo_ring 0x3000))) = 0x1028
   \<and> ActiveDescriptorCount (chan (snd (XDmaChannel_PutDescriptor demo_params demo_ring 0x3000))) = 2
   \<and> LastPtr (chan (snd (XDmaChannel_PutDescriptor demo_params demo_ring 0x3000))) = 0x1000
   \<and> PutPtr (chan (snd (XDmaChannel_PutDescriptor demo_params demo_ring 0x3000))) = 0x1028"
proof -
  have st1: "fst (XDmaChannel_PutDescriptor demo_params demo_created 0x3000) = XST_SUCCESS"
    by (simp add: XDmaChannel_PutDescriptor_def demo_defs demo_created_def Let_def)
  then have p1: "XDmaChannel_PutDescriptor demo_params demo_created 0x3000 =
      (XST_SUCCESS, snd (XDmaChannel_PutDescriptor demo_params demo_created 0x3000))"
    by (simp add: prod_eq_iff)
  have p2: "XDmaChannel_PutDescriptor demo_params demo_ring 0x3000 =
      (XST_SUCCESS, snd (XDmaChannel_PutDescriptor demo_params demo_ring 0x3000))"
    using demo_put_success by (simp add: prod_eq_iff)
  have c1: "CommitPtr (chan demo_created) = 0" "LastPtr (chan demo_created) = 0x1078"
    "PutPtr (chan demo_created) = 0x1078"
    "ActiveDescriptorCount (chan demo_created) = 0"
    "TotalDescriptorCount (chan demo_created) = 4"
    "VirtPtr (chan demo_created) = 0x1000" "PhyPtr (chan demo_created) = 0x2000"
    "XBufDescriptor_GetNextPtr demo_params (mem demo_created) 0x1078 = 0x2000"
    by (simp_all add: demo_created_def XBufDescriptor_GetNextPtr_def bd_word_def demo_params_def)
  have c2: "CommitPtr (chan demo_ring) = 0x1028" "LastPtr (chan demo_ring) = 0x1028"
    "PutPtr (chan demo_ring) = 0x1000"
    "ActiveDescriptorCount (chan demo_ring) = 1"
    "TotalDescriptorCount (chan demo_ring) = 2"
    "VirtPtr (chan demo_ring) = 0x1000" "PhyPtr (chan demo_ring) = 0x2000"
    "XBufDescriptor_GetNextPtr demo_params (mem demo_ring) 0x1000 = 0x2028"
    by (simp_all add: demo_ring_def XBufDescriptor_GetNextPtr_def bd_word_def demo_params_def)
  have h1: "layout_ok demo_params
      \<and> same_or_disjoint demo_params 0x3000 (PutPtr (chan demo_created))
      \<and> same_or_disjoint demo_params (LastPtr (chan demo_created)) (PutPtr (chan demo_created))"
    using layout_demo demo_apart(4) same_or_disjoint_refl [of demo_params "0x1078"]
    by (simp add: c1)
  have h2: "layout_ok demo_params
      \<and> same_or_disjoint demo_params 0x3000 (PutPtr (chan demo_ring))
      \<and> same_or_disjoint demo_params (LastPtr (chan demo_ring)) (PutPtr (chan demo_ring))"
    using layout_demo demo_apart(1,5) by (simp add: c2)
  note t1 = put_descriptor_cursors [OF p1]
  note t2 = put_descriptor_cursors [OF p2]
  have r1: "CommitPtr (chan (snd (XDmaChannel_PutDescriptor demo_params demo_created 0x3000)))
        = 0x1078
    \<and> ActiveDescriptorCount
        (chan (snd (XDmaChannel_PutDescriptor demo_params demo_created 0x3000))) = 1
    \<and> LastPtr (chan (snd (XDmaChannel_PutDescriptor demo_params demo_created 0x3000))) = 0x1078"
    using t1 by (simp add: c1)
  have "PutPtr (chan (snd (XDmaChannel_PutDescriptor demo_params demo_created 0x3000))) =
      P_TO_V (chan demo_created)
        (XBufDescriptor_GetNextPtr demo_params (mem demo_created) (PutPtr (chan demo_created)))"
    using t1 h1 by blast
  then have n1: "PutPtr (chan (snd (XDmaChannel_PutDescriptor demo_params demo_created 0x3000)))
      = 0x1000"
    by (simp add: c1 P_TO_V_def)
  have r2: "CommitPtr (chan (snd (XDmaChannel_PutDescriptor demo_params demo_ring 0x3000)))
        = 0x1028
    \<and> ActiveDescriptorCount
        (chan (snd (XDmaChannel_PutDescriptor demo_params demo_ring 0x3000))) = 2
    \<and> LastPtr (chan (snd (XDmaChannel_PutDescriptor demo_params demo_ring 0x3000))) = 0x1000"
    using t2 by (simp add: c2)
  have "PutPtr (chan (snd (XDmaChannel_PutDescriptor demo_params demo_ring 0x3000))) =
      P_TO_V (chan demo_ring)
        (XBufDescriptor_GetNextPtr demo_params (mem demo_ring) (PutPtr (chan demo_ring)))"
    using t2 h2 by blast
  then have n2: "PutPtr (chan (snd (XDmaChannel_PutDescriptor demo_params demo_ring 0x3000)))
      = 0x1028"
    by (simp add: c2 P_TO_V_def)
  show ?thesis
    using st1 demo_put_success r1 n1 r2 n2 by (simp add: c1 c2)
qed

subsection \<open>Put: the next pointers\<close>

text \<open>
  C7, as the claim states it, fails in its last part: a put can change the next pointer
  of a slot. The driver accepts any non-null descriptor address that is a multiple of 4.
  On the ring of two slots, a put of the descriptor at \<open>0x1014\<close>, which lies across the
  slot at \<open>0x1000\<close>, succeeds; the control word of that descriptor is the next pointer
  of the slot, so setting the stop bit in it turns the next pointer \<open>0x2028\<close> into
  \<open>0x08002028\<close>, and \<open>PutPtr\<close> advances to \<open>0x08001028\<close>, which is no slot.
\<close>

theorem put_across_slot_changes_next_counterexample:
  "fst (XDmaChannel_PutDescriptor demo_params demo_ring 0x1014) = XST_SUCCESS
   \<and> PutPtr (chan demo_ring) = 0x1000
   \<and> XBufDescriptor_GetNextPtr demo_params (mem demo_ring) 0x1000 = 0x2028
   \<and> XBufDescriptor_GetNextPtr demo_params
        (mem (snd (XDmaChannel_PutDescriptor demo_params demo_ring 0x1014))) 0x1000
       = 0x08002028
   \<and> PutPtr (chan (snd (XDmaChannel_PutDescriptor demo_params demo_ring 0x1014)))
       = 0x08001028"
  by (simp add: eval_defs)

text \<open>
  C7, amended. With a layout of ten different words: \<open>CopyBufferDescriptor\<close> writes the
  nine words of the destination that it names and no other word, so the next pointer of
  the destination is unchanged by the copy; when the source does not lie across the
  destination, each of the nine words of the destination is afterwards the word of the
  source. A call of \<open>XDmaChannel_PutDescriptor\<close>, successful or not, writes no word but
  the control, status and device-status words of the caller's descriptor, the nine
  copied words of the slot at \<open>PutPtr\<close> and the control word of the descriptor at
  \<open>LastPtr\<close>; so it leaves the next pointer of every descriptor that neither the
  caller's descriptor nor the descriptors at \<open>PutPtr\<close> and \<open>LastPtr\<close> lie across.
\<close>

theorem put_descriptor_keeps_next:
  assumes "layout_ok k"
  shows
    "XBufDescriptor_GetNextPtr k (CopyBufferDescriptor k m src dst) dst
       = XBufDescriptor_GetNextPtr k m dst
     \<and> (\<forall>a. (\<forall>off \<in> set (copied_offsets k). a \<noteq> bd_word dst off) \<longrightarrow>
            CopyBufferDescriptor k m src dst a = m a)
     \<and> (same_or_disjoint k src dst \<longrightarrow>
          (\<forall>off \<in> set (copied_offsets k).
             CopyBufferDescriptor k m src dst (bd_word dst off) = m (bd_word src off)))
     \<and> (\<forall>a. a \<noteq> bd_word BufferDescriptorPtr (XBD_CONTROL_OFFSET k)
            \<and> a \<noteq> bd_word BufferDescriptorPtr (XBD_STATUS_OFFSET k)
            \<and> a \<noteq> bd_word BufferDescriptorPtr (XBD_DEVICE_STATUS_OFFSET k)
            \<and> (\<forall>off \<in> set (copied_offsets k). a \<noteq> bd_word (PutPtr (chan s)) off)
            \<and> a \<noteq> bd_word (LastPtr (chan s)) (XBD_CONTROL_OFFSET k) \<longrightarrow>
            mem (snd (XDmaChannel_PutDescriptor k s BufferDescriptorPtr)) a = mem s a)
     \<and> (\<forall>q. same_or_disjoint k BufferDescriptorPtr q
            \<and> same_or_disjoint k (PutPtr (chan s)) q
            \<and> same_or_disjoint k (LastPtr (chan s)) q \<longrightarrow>
            XBufDescriptor_GetNextPtr k
              (mem (snd (XDmaChannel_PutDescriptor k s BufferDescriptorPtr))) q
              = XBufDescriptor_GetNextPtr k (mem s) q)"
proof (intro conjI allI impI ballI)
  show "XBufDescriptor_GetNextPtr k (CopyBufferDescriptor k m src dst) dst
       = XBufDescriptor_GetNextPtr k m dst"
    unfolding XBufDescriptor_GetNextPtr_def by (rule Copy_keeps_next [OF assms])
next
  fix a assume "\<forall>off \<in> set (copied_offsets k). a \<noteq> bd_word dst off"
  then show "CopyBufferDescriptor k m src dst a = m a"
    by (rule Copy_other)
next
  fix off assume "same_or_disjoint k src dst" "off \<in> set (copied_offsets k)"
  with assms show "CopyBufferDescriptor k m src dst (bd_word dst off) = m (bd_word src off)"
    by (rule Copy_at)
next
  fix a
  assume a: "a \<noteq> bd_word BufferDescriptorPtr (XBD_CONTROL_OFFSET k)
            \<and> a \<noteq> bd_word BufferDescriptorPtr (XBD_STATUS_OFFSET k)
            \<and> a \<noteq> bd_word BufferDescriptorPtr (XBD_DEVICE_STATUS_OFFSET k)
            \<and> (\<forall>off \<in> set (copied_offsets k). a \<noteq> bd_word (PutPtr (chan s)) off)
            \<and> a \<noteq> bd_word (LastPtr (chan s)) (XBD_CONTROL_OFFSET k)"
  show "mem (snd (XDmaChannel_PutDescriptor k s BufferDescriptorPtr)) a = mem s a"
    by (rule put_frame) (use a in simp_all)
next
  fix q
  assume "same_or_disjoint k BufferDescriptorPtr q
            \<and> same_or_disjoint k (PutPtr (chan s)) q
            \<and> same_or_disjoint k (LastPtr (chan s)) q"
  then show "XBufDescriptor_GetNextPtr k
              (mem (snd (XDmaChannel_PutDescriptor k s BufferDescriptorPtr))) q
              = XBufDescriptor_GetNextPtr k (mem s) q"
    using put_next_kept [OF assms] by blast
qed

theorem put_descriptor_keeps_next_witness:
  "fst (XDmaChannel_PutDescriptor demo_params demo_ring 0x3000) = XST_SUCCESS
   \<and> XBufDescriptor_GetNextPtr demo_params
        (mem (snd (XDmaChannel_PutDescriptor demo_params demo_ring 0x3000))) 0x1000 = 0x2028
   \<and> XBufDescriptor_GetStatus demo_params
        (mem (snd (XDmaChannel_PutDescriptor demo_params demo_ring 0x3000))) 0x1000
       = 0x80000000"
proof -
  have st: "fst (XDmaChannel_PutDescriptor demo_params demo_ring 0x3000) = XST_SUCCESS
    \<and> XBufDescriptor_GetStatus demo_params
        (mem (snd (XDmaChannel_PutDescriptor demo_params demo_ring 0x3000))) 0x1000
       = 0x80000000"
    by (simp add: eval_defs)
  have c: "PutPtr (chan demo_ring) = 0x1000" "LastPtr (chan demo_ring) = 0x1028"
    "XBufDescriptor_GetNextPtr demo_params (mem demo_ring) 0x1000 = 0x2028"
    by (simp_all add: demo_ring_def XBufDescriptor_GetNextPtr_def bd_word_def demo_params_def)
  from put_descriptor_keeps_next [OF layout_demo, of _ _ _ "0x3000" demo_ring,
      THEN conjunct2, THEN conjunct2, THEN conjunct2, THEN conjunct2, rule_format, of "0x1000"]
    demo_apart same_or_disjoint_refl
  have "XBufDescriptor_GetNextPtr demo_params
        (mem (snd (XDmaChannel_PutDescriptor demo_params demo_ring 0x3000))) 0x1000 = 0x2028"
    by (simp add: c)
  with st show ?thesis by simp
qed

subsection \<open>Put and the stop bit of the previous tail\<close>




end
